theory Spec2Isabelle
  imports Main "HOL-Library.Word"
begin

unbundle bit_operations_syntax

section \<open>Data model (include/bluetooth/services/ancs_c.h)\<close>

type_synonym u8 = "8 word"
type_synonym u16 = "16 word"
type_synonym u32 = "32 word"

text \<open>Caller-supplied attribute buffers live in a store: an address names a
  buffer, and the buffer's list length is its allocated size.\<close>

type_synonym addr = nat

definition BT_GATT_ANCS_ATTR_DATA_MAX :: nat where
  "BT_GATT_ANCS_ATTR_DATA_MAX = 32"

definition BT_GATT_ANCS_NB_OF_CATEGORY_ID :: u8 where
  "BT_GATT_ANCS_NB_OF_CATEGORY_ID = 12"

definition BT_GATT_ANCS_NB_OF_NOTIF_ATTR :: nat where
  "BT_GATT_ANCS_NB_OF_NOTIF_ATTR = 8"

definition BT_GATT_ANCS_NB_OF_APP_ATTR :: nat where
  "BT_GATT_ANCS_NB_OF_APP_ATTR = 1"

definition BT_GATT_ANCS_NB_OF_EVT_ID :: u8 where
  "BT_GATT_ANCS_NB_OF_EVT_ID = 3"

definition BT_GATT_ANCS_NOTIFICATION_DATA_LENGTH :: nat where
  "BT_GATT_ANCS_NOTIFICATION_DATA_LENGTH = 8"

definition BT_GATT_ANCS_EVENT_FLAG_SILENT :: nat where
  "BT_GATT_ANCS_EVENT_FLAG_SILENT = 0"

definition BT_GATT_ANCS_EVENT_FLAG_IMPORTANT :: nat where
  "BT_GATT_ANCS_EVENT_FLAG_IMPORTANT = 1"

definition BT_GATT_ANCS_EVENT_FLAG_PREEXISTING :: nat where
  "BT_GATT_ANCS_EVENT_FLAG_PREEXISTING = 2"

definition BT_GATT_ANCS_EVENT_FLAG_POSITIVE_ACTION :: nat where
  "BT_GATT_ANCS_EVENT_FLAG_POSITIVE_ACTION = 3"

definition BT_GATT_ANCS_EVENT_FLAG_NEGATIVE_ACTION :: nat where
  "BT_GATT_ANCS_EVENT_FLAG_NEGATIVE_ACTION = 4"

text \<open>Command ids as they travel on the wire (enum
  \<open>bt_gatt_ancs_c_cmd_id_val_t\<close>, values 0, 1, 2).\<close>

definition BT_GATT_ANCS_COMMAND_ID_GET_NOTIF_ATTRIBUTES :: u8 where
  "BT_GATT_ANCS_COMMAND_ID_GET_NOTIF_ATTRIBUTES = 0"

definition BT_GATT_ANCS_COMMAND_ID_GET_APP_ATTRIBUTES :: u8 where
  "BT_GATT_ANCS_COMMAND_ID_GET_APP_ATTRIBUTES = 1"

definition BT_GATT_ANCS_COMMAND_ID_GET_PERFORM_NOTIF_ACTION :: u8 where
  "BT_GATT_ANCS_COMMAND_ID_GET_PERFORM_NOTIF_ACTION = 2"

text \<open>Notification attribute ids that carry a length in the request.\<close>

definition BT_GATT_ANCS_NOTIF_ATTR_ID_TITLE :: nat where
  "BT_GATT_ANCS_NOTIF_ATTR_ID_TITLE = 1"

definition BT_GATT_ANCS_NOTIF_ATTR_ID_SUBTITLE :: nat where
  "BT_GATT_ANCS_NOTIF_ATTR_ID_SUBTITLE = 2"

definition BT_GATT_ANCS_NOTIF_ATTR_ID_MESSAGE :: nat where
  "BT_GATT_ANCS_NOTIF_ATTR_ID_MESSAGE = 3"

text \<open>errno values returned negated by the API (Zephyr's errno.h).\<close>

definition EAGAIN :: int where "EAGAIN = 11"
definition ENOMEM :: int where "ENOMEM = 12"
definition EBUSY :: int where "EBUSY = 16"
definition EINVAL :: int where "EINVAL = 22"

datatype bt_gatt_ancs_c_evt_type_t =
    BT_GATT_ANCS_C_EVT_NOTIF
  | BT_GATT_ANCS_C_EVT_INVALID_NOTIF
  | BT_GATT_ANCS_C_EVT_NOTIF_ATTRIBUTE
  | BT_GATT_ANCS_C_EVT_APP_ATTRIBUTE
  | BT_GATT_ANCS_C_EVT_NP_ERROR

datatype bt_gatt_ancs_c_action_id_values_t = ACTION_ID_POSITIVE | ACTION_ID_NEGATIVE

datatype bt_gatt_ancs_c_parse_state_t =
    COMMAND_ID | NOTIF_UID | APP_ID | ATTR_ID | ATTR_LEN1 | ATTR_LEN2
  | ATTR_DATA | ATTR_SKIP | DONE

text \<open>The five one-bit flag fields; each holds 0 or 1.\<close>

record bt_gatt_ancs_c_notif_flags_t =
  silent :: u8
  important :: u8
  pre_existing :: u8
  positive_action :: u8
  negative_action :: u8

text \<open>\<open>evt_id\<close> and \<open>category_id\<close> are enums assigned from a received byte
  by a cast, so they range over all byte values.\<close>

record bt_gatt_ancs_c_evt_notif_t =
  n_notif_uid :: u32
  evt_id :: u8
  evt_flags :: bt_gatt_ancs_c_notif_flags_t
  category_id :: u8
  category_count :: u8

record bt_gatt_ancs_c_attr_t =
  attr_len :: u16
  attr_id :: nat
  p_attr_data :: "addr option"

record bt_gatt_ancs_c_attr_list_t =
  get :: bool
  l_attr_id :: nat
  l_attr_len :: u16
  l_p_attr_data :: "addr option"

record bt_gatt_ancs_c_evt_t =
  evt_type :: bt_gatt_ancs_c_evt_type_t
  conn_handle :: u16
  notif :: bt_gatt_ancs_c_evt_notif_t
  err_code_np :: u8
  attr :: bt_gatt_ancs_c_attr_t
  notif_uid :: u32
  app_id :: "u8 list"

text \<open>\<open>p_attr_list\<close> points at one of the two tables of the session, or is
  NULL after \<open>memset\<close>.\<close>

datatype attr_list_ptr = LIST_NULL | LIST_NOTIF | LIST_APP

text \<open>Counters and indices are unsigned C integers. They are natural numbers
  here: every increment in the modelled code is guarded by a comparison with a
  16-bit length or happens at most eight times, and the one decrement is guarded
  by a test for zero, except \<open>current_app_id_index\<close>, whose first value
  outside the 32-byte array is already recorded as a fault.\<close>

record bt_gatt_ancs_parse_sm_t =
  p_attr_list :: attr_list_ptr
  nb_of_attr :: nat
  expected_number_of_attrs :: nat
  parse_state :: bt_gatt_ancs_c_parse_state_t
  command_id :: u8
  current_attr_index :: nat
  current_app_id_index :: nat

record k_sem =
  count :: nat
  limit :: nat

text \<open>What C leaves undefined is recorded, not hidden: a load past the end of
  a received record, and a store past the end of a destination array.\<close>

datatype fault =
    READ_PAST_RECORD
  | WRITE_PAST_APP_ID nat
  | WRITE_PAST_ATTR_DATA nat
  | WRITE_PAST_CP_DATA nat
  | WRITE_NULL_ATTR_DATA

text \<open>One invocation of the application's event handler: the event structure
  it is handed and the contents, at that moment, of the buffer the event's
  \<open>attr.p_attr_data\<close> points to.\<close>

record handler_call =
  call_evt :: bt_gatt_ancs_c_evt_t
  call_attr_data :: "u8 list"

text \<open>One write handed to the GATT layer: the attribute handle and the bytes.\<close>

record gatt_write =
  w_handle :: u16
  w_data :: "u8 list"

text \<open>The session structure \<open>struct bt_gatt_ancs_c\<close> with the fields the
  parser, the encoders and the dispatchers touch, followed by the environment
  they act on: the store of caller buffers, the handler invocations so far, the
  writes accepted by the GATT layer so far, and the undefined operations so far.
  \<open>cp_data\<close> is the staging array; its length is
  \<open>CONFIG_BT_GATT_ANCS_C_CP_BUFF_SIZE\<close>.\<close>

record bt_gatt_ancs_c =
  handle_cp :: u16
  cp_write_params_sem :: k_sem
  cp_data :: "u8 list"
  ancs_notif_attr_list :: "bt_gatt_ancs_c_attr_list_t list"
  ancs_app_attr_list :: "bt_gatt_ancs_c_attr_list_t list"
  number_of_requested_attr :: nat
  parse_info :: bt_gatt_ancs_parse_sm_t
  evt :: bt_gatt_ancs_c_evt_t
  heap :: "addr \<Rightarrow> u8 list"
  handler_calls :: "handler_call list"
  gatt_writes :: "gatt_write list"
  faults :: "fault list"

section \<open>Primitives of the platform\<close>

text \<open>A byte of a received record. Past the end of the record the C code
  reads whatever lies in the receive buffer there; \<open>mem\<close> supplies it.\<close>

definition rd :: "(nat \<Rightarrow> u8) \<Rightarrow> u8 list \<Rightarrow> nat \<Rightarrow> u8" where
  "rd mem p_data_src i = (if i < length p_data_src then p_data_src ! i else mem i)"

definition sys_get_le32 :: "(nat \<Rightarrow> u8) \<Rightarrow> u8 list \<Rightarrow> nat \<Rightarrow> u32" where
  "sys_get_le32 mem src i =
     ucast (rd mem src i) OR push_bit 8 (ucast (rd mem src (i + 1)))
       OR push_bit 16 (ucast (rd mem src (i + 2)))
       OR push_bit 24 (ucast (rd mem src (i + 3)))"

definition sys_put_le16 :: "u16 \<Rightarrow> u8 list" where
  "sys_put_le16 val = [ucast val, ucast (drop_bit 8 val)]"

definition sys_put_le32 :: "u32 \<Rightarrow> u8 list" where
  "sys_put_le32 val =
     [ucast val, ucast (drop_bit 8 val), ucast (drop_bit 16 val), ucast (drop_bit 24 val)]"

definition fault_add :: "fault \<Rightarrow> bt_gatt_ancs_c \<Rightarrow> bt_gatt_ancs_c" where
  "fault_add f ancs_c = ancs_c\<lparr>faults := faults ancs_c @ [f]\<rparr>"

text \<open>\<open>ancs_c->evt_handler(p_evt)\<close>: the handler observes the event and the
  attribute buffer it references.\<close>

definition evt_handler :: "bt_gatt_ancs_c \<Rightarrow> bt_gatt_ancs_c_evt_t \<Rightarrow> bt_gatt_ancs_c" where
  "evt_handler ancs_c p_evt =
     ancs_c\<lparr>handler_calls := handler_calls ancs_c @
       [\<lparr>call_evt = p_evt,
         call_attr_data = (case p_attr_data (attr p_evt) of
                             None \<Rightarrow> [] | Some a \<Rightarrow> heap ancs_c a)\<rparr>]\<rparr>"

section \<open>Notification Source decoder (subsys/bluetooth/services/ancs_c.c)\<close>

definition bt_gatt_ancs_verify_notification_format :: "bt_gatt_ancs_c_evt_notif_t \<Rightarrow> int" where
  "bt_gatt_ancs_verify_notification_format n =
     (if evt_id n \<ge> BT_GATT_ANCS_NB_OF_EVT_ID \<or> category_id n \<ge> BT_GATT_ANCS_NB_OF_CATEGORY_ID
      then - EINVAL else 0)"

text \<open>\<open>ancs_evt\<close> is an automatic variable: \<open>ancs_evt0\<close> is what the stack
  holds in it on entry. A length other than 8 calls the handler and falls
  through to the decoding, which reads offsets 0..7 whatever the length.\<close>

definition parse_notif ::
  "(nat \<Rightarrow> u8) \<Rightarrow> bt_gatt_ancs_c_evt_t \<Rightarrow> bt_gatt_ancs_c \<Rightarrow> u8 list \<Rightarrow> bt_gatt_ancs_c" where
  "parse_notif mem ancs_evt0 ancs_c p_data_src =
     (let hvx_data_len = length p_data_src;
          ancs_evt1 = (if hvx_data_len \<noteq> BT_GATT_ANCS_NOTIFICATION_DATA_LENGTH
                       then ancs_evt0\<lparr>evt_type := BT_GATT_ANCS_C_EVT_INVALID_NOTIF\<rparr>
                       else ancs_evt0);
          c1 = (if hvx_data_len \<noteq> BT_GATT_ANCS_NOTIFICATION_DATA_LENGTH
                then evt_handler ancs_c ancs_evt1 else ancs_c);
          c2 = (if hvx_data_len < 8 then fault_add READ_PAST_RECORD c1 else c1);
          flags = rd mem p_data_src 1;
          n = \<lparr>n_notif_uid = sys_get_le32 mem p_data_src 4,
               evt_id = rd mem p_data_src 0,
               evt_flags =
                 \<lparr>silent = drop_bit BT_GATT_ANCS_EVENT_FLAG_SILENT flags AND 1,
                  important = drop_bit BT_GATT_ANCS_EVENT_FLAG_IMPORTANT flags AND 1,
                  pre_existing = drop_bit BT_GATT_ANCS_EVENT_FLAG_PREEXISTING flags AND 1,
                  positive_action = drop_bit BT_GATT_ANCS_EVENT_FLAG_POSITIVE_ACTION flags AND 1,
                  negative_action = drop_bit BT_GATT_ANCS_EVENT_FLAG_NEGATIVE_ACTION flags AND 1\<rparr>,
               category_id = rd mem p_data_src 2,
               category_count = rd mem p_data_src 3\<rparr>;
          err = bt_gatt_ancs_verify_notification_format n;
          ancs_evt2 = ancs_evt1\<lparr>notif := n,
                        evt_type := (if err = 0 then BT_GATT_ANCS_C_EVT_NOTIF
                                     else BT_GATT_ANCS_C_EVT_INVALID_NOTIF)\<rparr>
      in evt_handler c2 ancs_evt2)"


section \<open>Session set-up (subsys/bluetooth/services/ancs_c.c)\<close>

text \<open>Zephyr's counting semaphore. \<open>k_sem_give\<close> never exceeds the limit.
  \<open>k_sem_take\<close> on an empty semaphore returns \<open>-EBUSY\<close> without waiting and
  \<open>-EAGAIN\<close> when a finite wait expires; calls are modelled one at a time, so
  nothing gives the semaphore while a call waits, and a wait without limit on an
  empty semaphore does not return (\<open>None\<close>).\<close>

datatype k_timeout_t = K_NO_WAIT | K_MSEC nat | K_FOREVER

definition k_sem_init :: "nat \<Rightarrow> nat \<Rightarrow> k_sem" where
  "k_sem_init initial_count lim = \<lparr>count = initial_count, limit = lim\<rparr>"

definition k_sem_give :: "k_sem \<Rightarrow> k_sem" where
  "k_sem_give sem = sem\<lparr>count := (if count sem \<noteq> limit sem then count sem + 1 else count sem)\<rparr>"

definition k_sem_take :: "k_sem \<Rightarrow> k_timeout_t \<Rightarrow> (int \<times> k_sem) option" where
  "k_sem_take sem timeout =
     (if count sem > 0 then Some (0, sem\<lparr>count := count sem - 1\<rparr>)
      else (case timeout of
              K_NO_WAIT \<Rightarrow> Some (- EBUSY, sem)
            | K_MSEC t \<Rightarrow> Some (- EAGAIN, sem)
            | K_FOREVER \<Rightarrow> None))"

definition zero_attr_list_entry :: bt_gatt_ancs_c_attr_list_t where
  "zero_attr_list_entry = \<lparr>get = False, l_attr_id = 0, l_attr_len = 0, l_p_attr_data = None\<rparr>"

definition zero_evt :: bt_gatt_ancs_c_evt_t where
  "zero_evt =
     \<lparr>evt_type = BT_GATT_ANCS_C_EVT_NOTIF, conn_handle = 0,
      notif = \<lparr>n_notif_uid = 0, evt_id = 0,
               evt_flags = \<lparr>silent = 0, important = 0, pre_existing = 0,
                            positive_action = 0, negative_action = 0\<rparr>,
               category_id = 0, category_count = 0\<rparr>,
      err_code_np = 0,
      attr = \<lparr>attr_len = 0, attr_id = 0, p_attr_data = None\<rparr>,
      notif_uid = 0,
      app_id = replicate BT_GATT_ANCS_ATTR_DATA_MAX 0\<rparr>"

text \<open>\<open>bt_gatt_ancs_c_init\<close>: \<open>memset\<close> to zero, then the semaphore with one
  permit. \<open>W\<close> is \<open>CONFIG_BT_GATT_ANCS_C_CP_BUFF_SIZE\<close> and \<open>hp\<close> the
  application's buffers.\<close>

definition bt_gatt_ancs_c_init :: "nat \<Rightarrow> (addr \<Rightarrow> u8 list) \<Rightarrow> bt_gatt_ancs_c" where
  "bt_gatt_ancs_c_init W hp =
     \<lparr>handle_cp = 0,
      cp_write_params_sem = k_sem_init 1 1,
      cp_data = replicate W 0,
      ancs_notif_attr_list = replicate BT_GATT_ANCS_NB_OF_NOTIF_ATTR zero_attr_list_entry,
      ancs_app_attr_list = replicate BT_GATT_ANCS_NB_OF_APP_ATTR zero_attr_list_entry,
      number_of_requested_attr = 0,
      parse_info = \<lparr>p_attr_list = LIST_NULL, nb_of_attr = 0, expected_number_of_attrs = 0,
                     parse_state = COMMAND_ID, command_id = 0, current_attr_index = 0,
                     current_app_id_index = 0\<rparr>,
      evt = zero_evt,
      heap = hp,
      handler_calls = [],
      gatt_writes = [],
      faults = []\<rparr>"

text \<open>\<open>bt_gatt_ancs_c_attr_add\<close> and \<open>bt_gatt_ancs_c_app_attr_add\<close>; \<open>id\<close> is an
  enum value, so it indexes inside the table.\<close>

definition bt_gatt_ancs_c_attr_add ::
  "bt_gatt_ancs_c \<Rightarrow> nat \<Rightarrow> addr option \<Rightarrow> u16 \<Rightarrow> int \<times> bt_gatt_ancs_c" where
  "bt_gatt_ancs_c_attr_add ancs_c ident p_data len =
     (if p_data = None then (- EINVAL, ancs_c)
      else if len = 0 \<or> unat len > BT_GATT_ANCS_ATTR_DATA_MAX then (- EINVAL, ancs_c)
      else (0, ancs_c\<lparr>ancs_notif_attr_list := (ancs_notif_attr_list ancs_c)
              [ident := (ancs_notif_attr_list ancs_c ! ident)
                 \<lparr>get := True, l_attr_len := len, l_p_attr_data := p_data\<rparr>]\<rparr>))"

definition bt_gatt_ancs_c_app_attr_add ::
  "bt_gatt_ancs_c \<Rightarrow> nat \<Rightarrow> addr option \<Rightarrow> u16 \<Rightarrow> int \<times> bt_gatt_ancs_c" where
  "bt_gatt_ancs_c_app_attr_add ancs_c ident p_data len =
     (if p_data = None then (- EINVAL, ancs_c)
      else if len = 0 \<or> unat len > BT_GATT_ANCS_ATTR_DATA_MAX then (- EINVAL, ancs_c)
      else (0, ancs_c\<lparr>ancs_app_attr_list := (ancs_app_attr_list ancs_c)
              [ident := (ancs_app_attr_list ancs_c ! ident)
                 \<lparr>get := True, l_attr_len := len, l_p_attr_data := p_data\<rparr>]\<rparr>))"

section \<open>Control Point encoders and dispatchers (ancs_c.c)\<close>

text \<open>A store into the staging array \<open>cp_data\<close>.\<close>

definition cp_put :: "bt_gatt_ancs_c \<Rightarrow> nat \<Rightarrow> u8 \<Rightarrow> bt_gatt_ancs_c" where
  "cp_put ancs_c i v =
     (if i < length (cp_data ancs_c) then ancs_c\<lparr>cp_data := (cp_data ancs_c)[i := v]\<rparr>
      else fault_add (WRITE_PAST_CP_DATA i) ancs_c)"

primrec cp_put_list :: "bt_gatt_ancs_c \<Rightarrow> nat \<Rightarrow> u8 list \<Rightarrow> bt_gatt_ancs_c" where
  "cp_put_list ancs_c i [] = ancs_c"
| "cp_put_list ancs_c i (v # vs) = cp_put_list (cp_put ancs_c i v) (i + 1) vs"

definition action_id_val :: "bt_gatt_ancs_c_action_id_values_t \<Rightarrow> u8" where
  "action_id_val a = (case a of ACTION_ID_POSITIVE \<Rightarrow> 0 | ACTION_ID_NEGATIVE \<Rightarrow> 1)"

definition encode_notif_action ::
  "bt_gatt_ancs_c \<Rightarrow> u32 \<Rightarrow> bt_gatt_ancs_c_action_id_values_t \<Rightarrow> bt_gatt_ancs_c \<times> nat" where
  "encode_notif_action ancs_c uid action_id =
     (let c1 = cp_put ancs_c 0 BT_GATT_ANCS_COMMAND_ID_GET_PERFORM_NOTIF_ACTION;
          c2 = cp_put_list c1 1 (sys_put_le32 uid);
          c3 = cp_put c2 5 (action_id_val action_id)
      in (c3, 6))"

text \<open>\<open>bt_gatt_write\<close> belongs to the GATT layer: \<open>write_err\<close> is what it
  returns. A write it accepts (0) carries the first \<open>len\<close> bytes of
  \<open>cp_data\<close>; \<open>len\<close> is a \<open>uint16_t\<close> parameter.\<close>

definition bt_gatt_ancs_c_cp_write :: "int \<Rightarrow> bt_gatt_ancs_c \<Rightarrow> nat \<Rightarrow> int \<times> bt_gatt_ancs_c" where
  "bt_gatt_ancs_c_cp_write write_err ancs_c len =
     (let c1 = (if write_err = 0
                then ancs_c\<lparr>gatt_writes := gatt_writes ancs_c @
                       [\<lparr>w_handle = handle_cp ancs_c,
                         w_data = take (len mod 2 ^ 16) (cp_data ancs_c)\<rparr>]\<rparr>
                else ancs_c);
          c2 = (if write_err \<noteq> 0
                then c1\<lparr>cp_write_params_sem := k_sem_give (cp_write_params_sem c1)\<rparr>
                else c1)
      in (write_err, c2))"

definition bt_gatt_ancs_c_cp_write_callback ::
  "bt_gatt_ancs_c_evt_t \<Rightarrow> bt_gatt_ancs_c \<Rightarrow> u8 \<Rightarrow> bt_gatt_ancs_c" where
  "bt_gatt_ancs_c_cp_write_callback ancs_evt0 ancs_c err =
     (let c1 = ancs_c\<lparr>cp_write_params_sem := k_sem_give (cp_write_params_sem ancs_c)\<rparr>;
          ancs_evt = ancs_evt0\<lparr>evt_type := BT_GATT_ANCS_C_EVT_NP_ERROR, err_code_np := err\<rparr>
      in evt_handler c1 ancs_evt)"

definition bt_gatt_ancs_perform_notif_action ::
  "int \<Rightarrow> bt_gatt_ancs_c \<Rightarrow> u32 \<Rightarrow> bt_gatt_ancs_c_action_id_values_t \<Rightarrow> k_timeout_t
     \<Rightarrow> (int \<times> bt_gatt_ancs_c) option" where
  "bt_gatt_ancs_perform_notif_action write_err ancs_c uuid action_id timeout =
     (case k_sem_take (cp_write_params_sem ancs_c) timeout of
        None \<Rightarrow> None
      | Some (err, sem) \<Rightarrow>
          if err \<noteq> 0 then Some (err, ancs_c)
          else (case encode_notif_action (ancs_c\<lparr>cp_write_params_sem := sem\<rparr>) uuid action_id of
                  (c1, len) \<Rightarrow> Some (bt_gatt_ancs_c_cp_write write_err c1 len)))"

text \<open>The loop over attribute ids 0..7 of \<open>bt_gatt_ancs_get_notif_attrs\<close>.\<close>

function get_notif_attrs_loop :: "bt_gatt_ancs_c \<Rightarrow> nat \<Rightarrow> nat \<Rightarrow> bt_gatt_ancs_c \<times> nat" where
  "get_notif_attrs_loop ancs_c index attr_no =
     (if attr_no < BT_GATT_ANCS_NB_OF_NOTIF_ATTR then
        (if get (ancs_notif_attr_list ancs_c ! attr_no) then
           (let c1 = cp_put ancs_c index (of_nat attr_no);
                c2 = (if attr_no = BT_GATT_ANCS_NOTIF_ATTR_ID_TITLE
                         \<or> attr_no = BT_GATT_ANCS_NOTIF_ATTR_ID_SUBTITLE
                         \<or> attr_no = BT_GATT_ANCS_NOTIF_ATTR_ID_MESSAGE
                      then cp_put_list c1 (index + 1)
                             (sys_put_le16 (l_attr_len (ancs_notif_attr_list ancs_c ! attr_no)))
                      else c1);
                index2 = (if attr_no = BT_GATT_ANCS_NOTIF_ATTR_ID_TITLE
                             \<or> attr_no = BT_GATT_ANCS_NOTIF_ATTR_ID_SUBTITLE
                             \<or> attr_no = BT_GATT_ANCS_NOTIF_ATTR_ID_MESSAGE
                          then index + 1 + 2 else index + 1);
                c3 = c2\<lparr>number_of_requested_attr := number_of_requested_attr c2 + 1\<rparr>
            in get_notif_attrs_loop c3 index2 (attr_no + 1))
         else get_notif_attrs_loop ancs_c index (attr_no + 1))
      else (ancs_c, index))"
  by pat_completeness auto
termination
  by (relation "measure (\<lambda>(c, i, a). BT_GATT_ANCS_NB_OF_NOTIF_ATTR - a)") auto

declare get_notif_attrs_loop.simps [simp del]

definition bt_gatt_ancs_get_notif_attrs ::
  "int \<Rightarrow> bt_gatt_ancs_c \<Rightarrow> u32 \<Rightarrow> k_timeout_t \<Rightarrow> (int \<times> bt_gatt_ancs_c) option" where
  "bt_gatt_ancs_get_notif_attrs write_err ancs_c p_uid timeout =
     (case k_sem_take (cp_write_params_sem ancs_c) timeout of
        None \<Rightarrow> None
      | Some (err, sem) \<Rightarrow>
          if err \<noteq> 0 then Some (err, ancs_c)
          else
            (let c0 = ancs_c\<lparr>cp_write_params_sem := sem, number_of_requested_attr := 0\<rparr>;
                 c1 = cp_put c0 0 BT_GATT_ANCS_COMMAND_ID_GET_NOTIF_ATTRIBUTES;
                 c2 = cp_put_list c1 1 (sys_put_le32 p_uid)
             in (case get_notif_attrs_loop c2 5 0 of
                   (c3, index) \<Rightarrow>
                     Some (bt_gatt_ancs_c_cp_write write_err
                       (c3\<lparr>parse_info := (parse_info c3)
                              \<lparr>expected_number_of_attrs := number_of_requested_attr c3\<rparr>\<rparr>)
                       index))))"

definition bt_gatt_ancs_c_request_attrs ::
  "int \<Rightarrow> bt_gatt_ancs_c \<Rightarrow> bt_gatt_ancs_c_evt_notif_t \<Rightarrow> k_timeout_t
     \<Rightarrow> (int \<times> bt_gatt_ancs_c) option" where
  "bt_gatt_ancs_c_request_attrs write_err ancs_c p_notif timeout =
     (if bt_gatt_ancs_verify_notification_format p_notif \<noteq> 0
      then Some (bt_gatt_ancs_verify_notification_format p_notif, ancs_c)
      else (case bt_gatt_ancs_get_notif_attrs write_err ancs_c (n_notif_uid p_notif) timeout of
              None \<Rightarrow> None
            | Some (err, c1) \<Rightarrow>
                Some (err, c1\<lparr>parse_info := (parse_info c1)\<lparr>parse_state := COMMAND_ID\<rparr>\<rparr>)))"


section \<open>Get-app-attributes encoder (subsys/bluetooth/services/ancs_app_attr_get.c)\<close>

datatype encode_app_attr_t =
    APP_ATTR_COMMAND_ID | APP_ATTR_APP_ID | APP_ATTR_ATTR_ID | APP_ATTR_DONE | APP_ATTR_ABORT

definition ANCS_GATTC_WRITE_PAYLOAD_LEN_MAX :: "bt_gatt_ancs_c \<Rightarrow> nat" where
  "ANCS_GATTC_WRITE_PAYLOAD_LEN_MAX ancs_c = length (cp_data ancs_c)"

definition app_attr_is_requested :: "bt_gatt_ancs_c \<Rightarrow> nat \<Rightarrow> bool" where
  "app_attr_is_requested ancs_c attr_no = get (ancs_app_attr_list ancs_c ! attr_no)"

definition app_attr_encode_cmd_id ::
  "bt_gatt_ancs_c \<Rightarrow> nat \<Rightarrow> encode_app_attr_t \<times> bt_gatt_ancs_c \<times> nat" where
  "app_attr_encode_cmd_id ancs_c index =
     (APP_ATTR_APP_ID, cp_put ancs_c index BT_GATT_ANCS_COMMAND_ID_GET_APP_ATTRIBUTES, index + 1)"

text \<open>\<open>p_app_id\<close> is the caller's memory at the pointer, \<open>app_id_len\<close> the
  length passed with it. The three \<open>if\<close> statements run in sequence; the two
  bounds checks return early.\<close>

definition app_attr_encode_app_id ::
  "(nat \<Rightarrow> u8) \<Rightarrow> bt_gatt_ancs_c \<Rightarrow> nat \<Rightarrow> u8 list \<Rightarrow> nat \<Rightarrow> nat
     \<Rightarrow> encode_app_attr_t \<times> bt_gatt_ancs_c \<times> nat \<times> nat" where
  "app_attr_encode_app_id mem ancs_c index p_app_id app_id_len cnt =
     (if cnt = app_id_len \<and> index \<ge> ANCS_GATTC_WRITE_PAYLOAD_LEN_MAX ancs_c
      then (APP_ATTR_ABORT, ancs_c, index, cnt)
      else
        (let c1 = (if cnt = app_id_len then cp_put ancs_c index 0 else ancs_c);
             index1 = (if cnt = app_id_len then index + 1 else index);
             cnt1 = (if cnt = app_id_len then cnt + 1 else cnt)
         in if cnt1 < app_id_len \<and> index1 \<ge> ANCS_GATTC_WRITE_PAYLOAD_LEN_MAX c1
            then (APP_ATTR_ABORT, c1, index1, cnt1)
            else
              (let c2 = (if cnt1 < app_id_len then cp_put c1 index1 (rd mem p_app_id cnt1) else c1);
                   index2 = (if cnt1 < app_id_len then index1 + 1 else index1);
                   cnt2 = (if cnt1 < app_id_len then cnt1 + 1 else cnt1)
               in if cnt2 > app_id_len then (APP_ATTR_ATTR_ID, c2, index2, cnt2)
                  else (APP_ATTR_APP_ID, c2, index2, cnt2))))"

definition app_attr_encode_attr_id ::
  "bt_gatt_ancs_c \<Rightarrow> nat \<Rightarrow> nat \<Rightarrow> encode_app_attr_t \<times> bt_gatt_ancs_c \<times> nat \<times> nat" where
  "app_attr_encode_attr_id ancs_c index attr_count =
     (if attr_count < BT_GATT_ANCS_NB_OF_APP_ATTR \<and> app_attr_is_requested ancs_c attr_count
         \<and> index \<ge> ANCS_GATTC_WRITE_PAYLOAD_LEN_MAX ancs_c
      then (APP_ATTR_ABORT, ancs_c, index, attr_count)
      else
        (let enc = (attr_count < BT_GATT_ANCS_NB_OF_APP_ATTR \<and> app_attr_is_requested ancs_c attr_count);
             c1 = (if enc
                   then (cp_put ancs_c index (of_nat attr_count))
                          \<lparr>number_of_requested_attr := number_of_requested_attr ancs_c + 1\<rparr>
                   else ancs_c);
             index1 = (if enc then index + 1 else index);
             attr_count1 = (if attr_count < BT_GATT_ANCS_NB_OF_APP_ATTR then attr_count + 1
                            else attr_count)
         in if attr_count1 = BT_GATT_ANCS_NB_OF_APP_ATTR then (APP_ATTR_DONE, c1, index1, attr_count1)
            else (APP_ATTR_APP_ID, c1, index1, attr_count1)))"

text \<open>One turn of the \<open>while\<close> loop of \<open>app_attr_get\<close> over the variables
  \<open>state\<close>, \<open>index\<close>, \<open>attr_bytes_encoded_count\<close> and
  \<open>app_id_bytes_encoded_count\<close>.\<close>

definition app_attr_get_step ::
  "(nat \<Rightarrow> u8) \<Rightarrow> u8 list \<Rightarrow> nat \<Rightarrow> encode_app_attr_t \<times> bt_gatt_ancs_c \<times> nat \<times> nat \<times> nat
     \<Rightarrow> encode_app_attr_t \<times> bt_gatt_ancs_c \<times> nat \<times> nat \<times> nat" where
  "app_attr_get_step mem p_app_id app_id_len v =
     (case v of (state, ancs_c, index, attr_cnt, app_cnt) \<Rightarrow>
        (case state of
           APP_ATTR_COMMAND_ID \<Rightarrow>
             (case app_attr_encode_cmd_id ancs_c index of
                (st, c1, i1) \<Rightarrow> (st, c1, i1, attr_cnt, app_cnt))
         | APP_ATTR_APP_ID \<Rightarrow>
             (case app_attr_encode_app_id mem ancs_c index p_app_id app_id_len app_cnt of
                (st, c1, i1, app_cnt1) \<Rightarrow> (st, c1, i1, attr_cnt, app_cnt1))
         | APP_ATTR_ATTR_ID \<Rightarrow>
             (case app_attr_encode_attr_id ancs_c index attr_cnt of
                (st, c1, i1, attr_cnt1) \<Rightarrow> (st, c1, i1, attr_cnt1, app_cnt))
         | APP_ATTR_DONE \<Rightarrow> v
         | APP_ATTR_ABORT \<Rightarrow> v))"

partial_function (option) app_attr_get_loop ::
  "(nat \<Rightarrow> u8) \<Rightarrow> u8 list \<Rightarrow> nat \<Rightarrow> encode_app_attr_t \<times> bt_gatt_ancs_c \<times> nat \<times> nat \<times> nat
     \<Rightarrow> (encode_app_attr_t \<times> bt_gatt_ancs_c \<times> nat \<times> nat \<times> nat) option" where
  "app_attr_get_loop mem p_app_id app_id_len v =
     (if fst v \<noteq> APP_ATTR_DONE \<and> fst v \<noteq> APP_ATTR_ABORT
      then app_attr_get_loop mem p_app_id app_id_len (app_attr_get_step mem p_app_id app_id_len v)
      else Some v)"

declare app_attr_get_loop.simps [code]

definition app_attr_get ::
  "(nat \<Rightarrow> u8) \<Rightarrow> int \<Rightarrow> bt_gatt_ancs_c \<Rightarrow> u8 list \<Rightarrow> nat \<Rightarrow> k_timeout_t
     \<Rightarrow> (int \<times> bt_gatt_ancs_c) option" where
  "app_attr_get mem write_err ancs_c p_app_id app_id_len timeout =
     (case k_sem_take (cp_write_params_sem ancs_c) timeout of
        None \<Rightarrow> None
      | Some (err, sem) \<Rightarrow>
          if err \<noteq> 0 then Some (err, ancs_c)
          else
            (case app_attr_get_loop mem p_app_id app_id_len
                    (APP_ATTR_COMMAND_ID,
                     ancs_c\<lparr>cp_write_params_sem := sem, number_of_requested_attr := 0\<rparr>,
                     0, 0, 0) of
               None \<Rightarrow> None
             | Some (state, c1, index, attr_cnt, app_cnt) \<Rightarrow>
                 if state = APP_ATTR_DONE
                 then (case bt_gatt_ancs_c_cp_write write_err c1 index of
                         (err1, c2) \<Rightarrow>
                           Some (err1, c2\<lparr>parse_info := (parse_info c2)
                                   \<lparr>expected_number_of_attrs := number_of_requested_attr c2\<rparr>\<rparr>))
                 else Some (- ENOMEM, c1)))"

definition ancs_c_app_attr_request ::
  "(nat \<Rightarrow> u8) \<Rightarrow> int \<Rightarrow> bt_gatt_ancs_c \<Rightarrow> u8 list \<Rightarrow> nat \<Rightarrow> k_timeout_t
     \<Rightarrow> (int \<times> bt_gatt_ancs_c) option" where
  "ancs_c_app_attr_request mem write_err ancs_c p_app_id len timeout =
     (if len = 0 then Some (- EINVAL, ancs_c)
      else if rd mem p_app_id len \<noteq> 0 then Some (- EINVAL, ancs_c)
      else app_attr_get mem write_err
             (ancs_c\<lparr>parse_info := (parse_info ancs_c)\<lparr>parse_state := COMMAND_ID\<rparr>\<rparr>)
             p_app_id len timeout)"

definition bt_gatt_ancs_c_app_attr_request ::
  "(nat \<Rightarrow> u8) \<Rightarrow> int \<Rightarrow> bt_gatt_ancs_c \<Rightarrow> u8 list \<Rightarrow> nat \<Rightarrow> k_timeout_t
     \<Rightarrow> (int \<times> bt_gatt_ancs_c) option" where
  "bt_gatt_ancs_c_app_attr_request mem write_err ancs_c p_app_id len timeout =
     ancs_c_app_attr_request mem write_err ancs_c p_app_id len timeout"

section \<open>Data Source parser (subsys/bluetooth/services/ancs_attr_parser.c)\<close>

definition all_req_attrs_parsed :: "bt_gatt_ancs_c \<Rightarrow> bool" where
  "all_req_attrs_parsed ancs_c = (expected_number_of_attrs (parse_info ancs_c) = 0)"

text \<open>\<open>parse_info.p_attr_list[i]\<close>. The parser indexes the table only with an
  attribute id that passed the \<open>nb_of_attr\<close> test of \<open>attr_id_parse\<close>; an index
  outside the table, or one through the NULL pointer, yields a zeroed entry
  here.\<close>

definition p_attr_list_at :: "bt_gatt_ancs_c \<Rightarrow> nat \<Rightarrow> bt_gatt_ancs_c_attr_list_t" where
  "p_attr_list_at ancs_c i =
     (let l = (case p_attr_list (parse_info ancs_c) of
                 LIST_NULL \<Rightarrow> []
               | LIST_NOTIF \<Rightarrow> ancs_notif_attr_list ancs_c
               | LIST_APP \<Rightarrow> ancs_app_attr_list ancs_c)
      in if i < length l then l ! i else zero_attr_list_entry)"

definition attr_is_requested :: "bt_gatt_ancs_c \<Rightarrow> bt_gatt_ancs_c_attr_t \<Rightarrow> bool" where
  "attr_is_requested ancs_c a = get (p_attr_list_at ancs_c (attr_id a))"

text \<open>A store through \<open>evt.attr.p_attr_data\<close> into the caller's buffer.\<close>

definition attr_data_put :: "bt_gatt_ancs_c \<Rightarrow> nat \<Rightarrow> u8 \<Rightarrow> bt_gatt_ancs_c" where
  "attr_data_put ancs_c i v =
     (case p_attr_data (attr (evt ancs_c)) of
        None \<Rightarrow> fault_add WRITE_NULL_ATTR_DATA ancs_c
      | Some a \<Rightarrow>
          if i < length (heap ancs_c a)
          then ancs_c\<lparr>heap := (heap ancs_c)(a := (heap ancs_c a)[i := v])\<rparr>
          else fault_add (WRITE_PAST_ATTR_DATA i) ancs_c)"

text \<open>Each state function returns the next parse state, the session and the
  advanced index. The loop calls them with \<open>index < hvx_data_len\<close>, so
  \<open>p_data_src ! index\<close> is a byte of the record; only \<open>notif_uid_parse\<close> reads
  further.\<close>

definition command_id_parse ::
  "bt_gatt_ancs_c \<Rightarrow> u8 list \<Rightarrow> nat \<Rightarrow> bt_gatt_ancs_c_parse_state_t \<times> bt_gatt_ancs_c \<times> nat" where
  "command_id_parse ancs_c p_data_src index =
     (let c1 = ancs_c\<lparr>parse_info := (parse_info ancs_c)\<lparr>command_id := p_data_src ! index\<rparr>\<rparr>
      in if command_id (parse_info c1) = BT_GATT_ANCS_COMMAND_ID_GET_NOTIF_ATTRIBUTES
         then (NOTIF_UID,
               c1\<lparr>evt := (evt c1)\<lparr>evt_type := BT_GATT_ANCS_C_EVT_NOTIF_ATTRIBUTE\<rparr>,
                  parse_info := (parse_info c1)
                    \<lparr>p_attr_list := LIST_NOTIF, nb_of_attr := BT_GATT_ANCS_NB_OF_NOTIF_ATTR\<rparr>\<rparr>,
               index + 1)
         else if command_id (parse_info c1) = BT_GATT_ANCS_COMMAND_ID_GET_APP_ATTRIBUTES
         then (APP_ID,
               c1\<lparr>evt := (evt c1)\<lparr>evt_type := BT_GATT_ANCS_C_EVT_APP_ATTRIBUTE\<rparr>,
                  parse_info := (parse_info c1)
                    \<lparr>p_attr_list := LIST_APP, nb_of_attr := BT_GATT_ANCS_NB_OF_APP_ATTR\<rparr>\<rparr>,
               index + 1)
         else (DONE, c1, index + 1))"

definition notif_uid_parse ::
  "(nat \<Rightarrow> u8) \<Rightarrow> bt_gatt_ancs_c \<Rightarrow> u8 list \<Rightarrow> nat
     \<Rightarrow> bt_gatt_ancs_c_parse_state_t \<times> bt_gatt_ancs_c \<times> nat" where
  "notif_uid_parse mem ancs_c p_data_src index =
     (let c1 = (if index + 4 > length p_data_src then fault_add READ_PAST_RECORD ancs_c
                else ancs_c)
      in (ATTR_ID,
          c1\<lparr>evt := (evt c1)\<lparr>notif_uid := sys_get_le32 mem p_data_src index\<rparr>\<rparr>,
          index + 4))"

text \<open>The byte is stored at \<open>current_app_id_index\<close> and then compared with
  NUL.\<close>

definition app_id_parse ::
  "bt_gatt_ancs_c \<Rightarrow> u8 list \<Rightarrow> nat \<Rightarrow> bt_gatt_ancs_c_parse_state_t \<times> bt_gatt_ancs_c \<times> nat" where
  "app_id_parse ancs_c p_data_src index =
     (let i = current_app_id_index (parse_info ancs_c);
          v = p_data_src ! index;
          c1 = (if i < length (app_id (evt ancs_c))
                then ancs_c\<lparr>evt := (evt ancs_c)\<lparr>app_id := (app_id (evt ancs_c))[i := v]\<rparr>\<rparr>
                else fault_add (WRITE_PAST_APP_ID i) ancs_c)
      in if v \<noteq> 0
         then (APP_ID,
               c1\<lparr>parse_info := (parse_info c1)\<lparr>current_app_id_index := i + 1\<rparr>\<rparr>,
               index + 1)
         else (ATTR_ID, c1, index + 1))"

definition attr_id_parse ::
  "bt_gatt_ancs_c \<Rightarrow> u8 list \<Rightarrow> nat \<Rightarrow> bt_gatt_ancs_c_parse_state_t \<times> bt_gatt_ancs_c \<times> nat" where
  "attr_id_parse ancs_c p_data_src index =
     (let c1 = ancs_c\<lparr>evt := (evt ancs_c)
                 \<lparr>attr := (attr (evt ancs_c))\<lparr>attr_id := unat (p_data_src ! index)\<rparr>\<rparr>\<rparr>
      in if attr_id (attr (evt c1)) \<ge> nb_of_attr (parse_info c1) then (DONE, c1, index + 1)
         else
           (let c2 = c1\<lparr>evt := (evt c1)
                       \<lparr>attr := (attr (evt c1))
                          \<lparr>p_attr_data :=
                             l_p_attr_data (p_attr_list_at c1 (attr_id (attr (evt c1))))\<rparr>\<rparr>\<rparr>
            in if all_req_attrs_parsed c2 then (DONE, c2, index + 1)
               else (ATTR_LEN1,
                     (if attr_is_requested c2 (attr (evt c2))
                      then c2\<lparr>parse_info := (parse_info c2)
                             \<lparr>expected_number_of_attrs :=
                                expected_number_of_attrs (parse_info c2) - 1\<rparr>\<rparr>
                      else c2),
                     index + 1)))"

definition attr_len1_parse ::
  "bt_gatt_ancs_c \<Rightarrow> u8 list \<Rightarrow> nat \<Rightarrow> bt_gatt_ancs_c_parse_state_t \<times> bt_gatt_ancs_c \<times> nat" where
  "attr_len1_parse ancs_c p_data_src index =
     (ATTR_LEN2,
      ancs_c\<lparr>evt := (evt ancs_c)
               \<lparr>attr := (attr (evt ancs_c))\<lparr>attr_len := ucast (p_data_src ! index)\<rparr>\<rparr>\<rparr>,
      index + 1)"

definition attr_len2_parse ::
  "bt_gatt_ancs_c \<Rightarrow> u8 list \<Rightarrow> nat \<Rightarrow> bt_gatt_ancs_c_parse_state_t \<times> bt_gatt_ancs_c \<times> nat" where
  "attr_len2_parse ancs_c p_data_src index =
     (let c1 = ancs_c\<lparr>evt := (evt ancs_c)
                 \<lparr>attr := (attr (evt ancs_c))
                    \<lparr>attr_len := attr_len (attr (evt ancs_c))
                                   OR push_bit 8 (ucast (p_data_src ! index))\<rparr>\<rparr>,
                parse_info := (parse_info ancs_c)\<lparr>current_attr_index := 0\<rparr>\<rparr>
      in if attr_len (attr (evt c1)) \<noteq> 0
         then (if l_attr_len (p_attr_list_at c1 (attr_id (attr (evt c1)))) = 0
                  \<or> l_p_attr_data (p_attr_list_at c1 (attr_id (attr (evt c1)))) = None
               then (ATTR_SKIP, c1, index + 1)
               else (ATTR_DATA, c1, index + 1))
         else
           (let c2 = (if attr_is_requested c1 (attr (evt c1)) then evt_handler c1 (evt c1) else c1)
            in if all_req_attrs_parsed c2 then (DONE, c2, index + 1)
               else (ATTR_ID, c2, index + 1)))"

text \<open>The second condition compares \<open>current_attr_index\<close> with the table's
  \<open>attr_len - 1\<close>, computed in \<open>int\<close> as C does.\<close>

definition attr_data_parse ::
  "bt_gatt_ancs_c \<Rightarrow> u8 list \<Rightarrow> nat \<Rightarrow> bt_gatt_ancs_c_parse_state_t \<times> bt_gatt_ancs_c \<times> nat" where
  "attr_data_parse ancs_c p_data_src index =
     (let list_len = unat (l_attr_len (p_attr_list_at ancs_c (attr_id (attr (evt ancs_c)))));
          len = unat (attr_len (attr (evt ancs_c)));
          cur = current_attr_index (parse_info ancs_c);
          copy = (cur < list_len \<and> cur < len);
          c1 = (if copy
                then (attr_data_put ancs_c cur (p_data_src ! index))
                       \<lparr>parse_info := (parse_info ancs_c)\<lparr>current_attr_index := cur + 1\<rparr>\<rparr>
                else ancs_c);
          index1 = (if copy then index + 1 else index);
          cur1 = current_attr_index (parse_info c1)
      in if cur1 = len \<or> int cur1 = int list_len - 1
         then
           (let c2 = (if attr_is_requested c1 (attr (evt c1)) then attr_data_put c1 cur1 0 else c1)
            in if cur1 < len then (ATTR_SKIP, c2, index1)
               else
                 (let c3 = (if attr_is_requested c2 (attr (evt c2)) then evt_handler c2 (evt c2)
                            else c2)
                  in if all_req_attrs_parsed c3 then (DONE, c3, index1)
                     else (ATTR_ID, c3, index1)))
         else (ATTR_DATA, c1, index1))"

definition attr_skip ::
  "bt_gatt_ancs_c \<Rightarrow> u8 list \<Rightarrow> nat \<Rightarrow> bt_gatt_ancs_c_parse_state_t \<times> bt_gatt_ancs_c \<times> nat" where
  "attr_skip ancs_c p_data_src index =
     (let len = unat (attr_len (attr (evt ancs_c)));
          cur = current_attr_index (parse_info ancs_c);
          c1 = (if cur < len
                then ancs_c\<lparr>parse_info := (parse_info ancs_c)\<lparr>current_attr_index := cur + 1\<rparr>\<rparr>
                else ancs_c);
          index1 = (if cur < len then index + 1 else index)
      in if current_attr_index (parse_info c1) = len
         then
           (let c2 = (if attr_is_requested c1 (attr (evt c1)) then evt_handler c1 (evt c1) else c1)
            in if all_req_attrs_parsed c2 then (DONE, c2, index1)
               else (ATTR_ID, c2, index1))
         else (ATTR_SKIP, c1, index1))"

text \<open>One turn of the \<open>for\<close> loop of \<open>ancs_parse_get_attrs_response\<close>: the
  state function of the current parse state runs and its result is assigned to
  \<open>parse_info.parse_state\<close>; \<open>DONE\<close> moves the index to the end of the record.\<close>

definition assign_parse_state ::
  "bt_gatt_ancs_c_parse_state_t \<times> bt_gatt_ancs_c \<times> nat \<Rightarrow> bt_gatt_ancs_c \<times> nat" where
  "assign_parse_state r =
     (case r of (st, c, index) \<Rightarrow> (c\<lparr>parse_info := (parse_info c)\<lparr>parse_state := st\<rparr>\<rparr>, index))"

definition parse_turn ::
  "(nat \<Rightarrow> u8) \<Rightarrow> u8 list \<Rightarrow> bt_gatt_ancs_c \<Rightarrow> nat \<Rightarrow> bt_gatt_ancs_c \<times> nat" where
  "parse_turn mem p_data_src ancs_c index =
     (case parse_state (parse_info ancs_c) of
        COMMAND_ID \<Rightarrow> assign_parse_state (command_id_parse ancs_c p_data_src index)
      | NOTIF_UID \<Rightarrow> assign_parse_state (notif_uid_parse mem ancs_c p_data_src index)
      | APP_ID \<Rightarrow> assign_parse_state (app_id_parse ancs_c p_data_src index)
      | ATTR_ID \<Rightarrow> assign_parse_state (attr_id_parse ancs_c p_data_src index)
      | ATTR_LEN1 \<Rightarrow> assign_parse_state (attr_len1_parse ancs_c p_data_src index)
      | ATTR_LEN2 \<Rightarrow> assign_parse_state (attr_len2_parse ancs_c p_data_src index)
      | ATTR_DATA \<Rightarrow> assign_parse_state (attr_data_parse ancs_c p_data_src index)
      | ATTR_SKIP \<Rightarrow> assign_parse_state (attr_skip ancs_c p_data_src index)
      | DONE \<Rightarrow> (ancs_c, length p_data_src))"

text \<open>The loop runs while \<open>index < hvx_data_len\<close>. A turn that neither
  advances the index nor changes the state repeats for ever, so the loop is a
  partial function: \<open>None\<close> is not returning.\<close>

partial_function (option) parse_loop ::
  "(nat \<Rightarrow> u8) \<Rightarrow> u8 list \<Rightarrow> bt_gatt_ancs_c \<Rightarrow> nat \<Rightarrow> bt_gatt_ancs_c option" where
  "parse_loop mem p_data_src ancs_c index =
     (if index < length p_data_src
      then parse_loop mem p_data_src (fst (parse_turn mem p_data_src ancs_c index))
             (snd (parse_turn mem p_data_src ancs_c index))
      else Some ancs_c)"

declare parse_loop.simps [code]

definition ancs_parse_get_attrs_response ::
  "(nat \<Rightarrow> u8) \<Rightarrow> bt_gatt_ancs_c \<Rightarrow> u8 list \<Rightarrow> bt_gatt_ancs_c option" where
  "ancs_parse_get_attrs_response mem ancs_c p_data_src = parse_loop mem p_data_src ancs_c 0"

text \<open>\<open>on_received_ds\<close> for a sequence of Data Source records, in arrival
  order.\<close>

fun on_received_ds_all ::
  "(nat \<Rightarrow> u8) \<Rightarrow> bt_gatt_ancs_c \<Rightarrow> u8 list list \<Rightarrow> bt_gatt_ancs_c option" where
  "on_received_ds_all mem ancs_c [] = Some ancs_c"
| "on_received_ds_all mem ancs_c (r # rs) =
     (case ancs_parse_get_attrs_response mem ancs_c r of
        None \<Rightarrow> None
      | Some c1 \<Rightarrow> on_received_ds_all mem c1 rs)"


section \<open>Invariant of the Data Source parser\<close>

text \<open>A table entry as the parser needs it: an entry without a buffer or with
  length zero is not requested, and an entry with a buffer has a length of at
  least 2 that the buffer can hold. Registration through
  \<open>bt_gatt_ancs_c_attr_add\<close> gives the first part and lengths from 1 to 32;
  length 1 is excluded here.\<close>

definition entry_ok :: "(addr \<Rightarrow> u8 list) \<Rightarrow> bt_gatt_ancs_c_attr_list_t \<Rightarrow> bool" where
  "entry_ok hp e =
     (case l_p_attr_data e of
        None \<Rightarrow> \<not> get e
      | Some a \<Rightarrow>
          if l_attr_len e = 0 then \<not> get e
          else 2 \<le> unat (l_attr_len e) \<and> unat (l_attr_len e) \<le> length (hp a))"

definition tables_ok :: "bt_gatt_ancs_c \<Rightarrow> bool" where
  "tables_ok c =
     (length (ancs_notif_attr_list c) = BT_GATT_ANCS_NB_OF_NOTIF_ATTR
      \<and> length (ancs_app_attr_list c) = BT_GATT_ANCS_NB_OF_APP_ATTR
      \<and> list_all (entry_ok (heap c)) (ancs_notif_attr_list c)
      \<and> list_all (entry_ok (heap c)) (ancs_app_attr_list c))"

text \<open>The table, its size and the event type are set together by
  \<open>command_id_parse\<close>.\<close>

definition link_ok :: "bt_gatt_ancs_c \<Rightarrow> bool" where
  "link_ok c =
     (p_attr_list (parse_info c) = LIST_NOTIF
        \<and> nb_of_attr (parse_info c) = BT_GATT_ANCS_NB_OF_NOTIF_ATTR
        \<and> evt_type (evt c) = BT_GATT_ANCS_C_EVT_NOTIF_ATTRIBUTE
      \<or> p_attr_list (parse_info c) = LIST_APP
        \<and> nb_of_attr (parse_info c) = BT_GATT_ANCS_NB_OF_APP_ATTR
        \<and> evt_type (evt c) = BT_GATT_ANCS_C_EVT_APP_ATTRIBUTE)"

definition cur_entry :: "bt_gatt_ancs_c \<Rightarrow> bt_gatt_ancs_c_attr_list_t" where
  "cur_entry c = p_attr_list_at c (attr_id (attr (evt c)))"

definition bound_ok :: "bt_gatt_ancs_c \<Rightarrow> bool" where
  "bound_ok c =
     (attr_id (attr (evt c)) < nb_of_attr (parse_info c)
      \<and> p_attr_data (attr (evt c)) = l_p_attr_data (cur_entry c))"

definition nul_at :: "u8 list \<Rightarrow> nat \<Rightarrow> bool" where
  "nul_at buf n = (n < length buf \<and> buf ! n = 0)"

definition data_ok :: "bt_gatt_ancs_c \<Rightarrow> bool" where
  "data_ok c =
     (l_attr_len (cur_entry c) \<noteq> 0 \<and> l_p_attr_data (cur_entry c) \<noteq> None
      \<and> current_attr_index (parse_info c) < unat (attr_len (attr (evt c)))
      \<and> current_attr_index (parse_info c) + 1 < unat (l_attr_len (cur_entry c)))"

definition skip_ok :: "bt_gatt_ancs_c \<Rightarrow> bool" where
  "skip_ok c =
     (current_attr_index (parse_info c) < unat (attr_len (attr (evt c)))
      \<and> (if get (cur_entry c)
          then unat (l_attr_len (cur_entry c)) - 1 < unat (attr_len (attr (evt c)))
               \<and> (case l_p_attr_data (cur_entry c) of
                     None \<Rightarrow> False
                   | Some a \<Rightarrow> nul_at (heap c a) (unat (l_attr_len (cur_entry c)) - 1))
          else True))"

definition state_ok :: "bt_gatt_ancs_c \<Rightarrow> bool" where
  "state_ok c =
     (case parse_state (parse_info c) of
        COMMAND_ID \<Rightarrow> True
      | NOTIF_UID \<Rightarrow> link_ok c
      | APP_ID \<Rightarrow> link_ok c
      | ATTR_ID \<Rightarrow> link_ok c
      | ATTR_LEN1 \<Rightarrow> link_ok c \<and> bound_ok c
      | ATTR_LEN2 \<Rightarrow> link_ok c \<and> bound_ok c
      | ATTR_DATA \<Rightarrow> link_ok c \<and> bound_ok c \<and> data_ok c
      | ATTR_SKIP \<Rightarrow> link_ok c \<and> bound_ok c \<and> skip_ok c
      | DONE \<Rightarrow> True)"

text \<open>What a handler call for an attribute event shows, stated on the call
  alone: the attribute is a requested entry of the table the event type names,
  and, when the received length is not zero, the referenced buffer holds NUL at
  the index \<open>min (received length) (registered length - 1)\<close>, which lies inside
  the registered length.\<close>

definition call_ok ::
  "bt_gatt_ancs_c_attr_list_t list \<Rightarrow> bt_gatt_ancs_c_attr_list_t list \<Rightarrow> handler_call \<Rightarrow> bool" where
  "call_ok notif_list app_list h =
     (let tbl = (case evt_type (call_evt h) of
                   BT_GATT_ANCS_C_EVT_NOTIF_ATTRIBUTE \<Rightarrow> Some notif_list
                 | BT_GATT_ANCS_C_EVT_APP_ATTRIBUTE \<Rightarrow> Some app_list
                 | _ \<Rightarrow> None);
          i = attr_id (attr (call_evt h));
          len = unat (attr_len (attr (call_evt h)))
      in case tbl of
           None \<Rightarrow> True
         | Some t \<Rightarrow>
             i < length t \<and> get (t ! i)
             \<and> (if len = 0 then True
                 else nul_at (call_attr_data h) (min len (unat (l_attr_len (t ! i)) - 1))
                      \<and> min len (unat (l_attr_len (t ! i)) - 1) < unat (l_attr_len (t ! i))))"

definition attr_fault :: "fault \<Rightarrow> bool" where
  "attr_fault f = (case f of WRITE_PAST_ATTR_DATA i \<Rightarrow> True | WRITE_NULL_ATTR_DATA \<Rightarrow> True
                   | _ \<Rightarrow> False)"

definition ds_inv :: "bt_gatt_ancs_c \<Rightarrow> bool" where
  "ds_inv c =
     (tables_ok c \<and> state_ok c
      \<and> list_all (call_ok (ancs_notif_attr_list c) (ancs_app_attr_list c)) (handler_calls c)
      \<and> \<not> list_ex attr_fault (faults c))"

section \<open>The request layout as the specification words it\<close>

text \<open>GetNotifAttrs: the command id 0, the uid as little-endian u32, then for
  each requested notification attribute id in ascending order the id, followed
  by the registered length as little-endian u16 when the id is Title, Subtitle
  or Message.\<close>

definition GetNotifAttrs_attr :: "bt_gatt_ancs_c_attr_list_t list \<Rightarrow> nat \<Rightarrow> u8 list" where
  "GetNotifAttrs_attr tbl i =
     (if get (tbl ! i)
      then of_nat i # (if i \<in> {1, 2, 3} then sys_put_le16 (l_attr_len (tbl ! i)) else [])
      else [])"

definition GetNotifAttrs_layout :: "u32 \<Rightarrow> bt_gatt_ancs_c_attr_list_t list \<Rightarrow> u8 list" where
  "GetNotifAttrs_layout uid tbl =
     0 # sys_put_le32 uid @ concat (map (GetNotifAttrs_attr tbl) [0..<8])"

section \<open>Sessions and inputs of the worked examples\<close>

definition zero_mem :: "nat \<Rightarrow> u8" where
  "zero_mem i = 0"

text \<open>Nine zeroed buffers of 32 bytes at the addresses 0..8.\<close>

definition sample_heap :: "addr \<Rightarrow> u8 list" where
  "sample_heap a = (if a < 9 then replicate 32 0 else [])"

text \<open>The session of the specification's scenarios: AppIdentifier, Title,
  Message, Date, PositiveActionLabel and NegativeActionLabel registered with 32
  bytes each, and the app attribute DisplayName, through the registration
  functions.\<close>

definition scenario_session :: "nat \<Rightarrow> bt_gatt_ancs_c" where
  "scenario_session W =
     (let c0 = bt_gatt_ancs_c_init W sample_heap;
          c1 = snd (bt_gatt_ancs_c_attr_add c0 0 (Some 0) 32);
          c2 = snd (bt_gatt_ancs_c_app_attr_add c1 0 (Some 8) 32);
          c3 = snd (bt_gatt_ancs_c_attr_add c2 1 (Some 1) 32);
          c4 = snd (bt_gatt_ancs_c_attr_add c3 3 (Some 3) 32);
          c5 = snd (bt_gatt_ancs_c_attr_add c4 5 (Some 5) 32);
          c6 = snd (bt_gatt_ancs_c_attr_add c5 6 (Some 6) 32)
      in snd (bt_gatt_ancs_c_attr_add c6 7 (Some 7) 32))"

definition scenario_notif :: bt_gatt_ancs_c_evt_notif_t where
  "scenario_notif =
     \<lparr>n_notif_uid = 0x04030201, evt_id = 0,
      evt_flags = \<lparr>silent = 0, important = 0, pre_existing = 0,
                   positive_action = 1, negative_action = 1\<rparr>,
      category_id = 6, category_count = 2\<rparr>"

text \<open>The scenario session after its request was written.\<close>

definition requested_session :: bt_gatt_ancs_c where
  "requested_session =
     snd (the (bt_gatt_ancs_c_request_attrs 0 (scenario_session 18) scenario_notif K_NO_WAIT))"

text \<open>A session in the middle of a response: the first Data Source record
  ended inside the Title.\<close>

definition midresponse_session :: bt_gatt_ancs_c where
  "midresponse_session =
     the (ancs_parse_get_attrs_response zero_mem requested_session
            [0, 1, 2, 3, 4, 1, 3, 0, 0x6E])"

text \<open>The app identifier "com.apple.mobilecal" with its terminator.\<close>

definition calendar_app_id :: "u8 list" where
  "calendar_app_id =
     [0x63, 0x6F, 0x6D, 0x2E, 0x61, 0x70, 0x70, 0x6C, 0x65, 0x2E,
      0x6D, 0x6F, 0x62, 0x69, 0x6C, 0x65, 0x63, 0x61, 0x6C, 0]"

text \<open>The scenario session after a get-app-attributes request for "com" was
  written, and the Data Source record that answers it with a 32-byte app
  identifier.\<close>

definition app_requested_session :: bt_gatt_ancs_c where
  "app_requested_session =
     snd (the (ancs_c_app_attr_request zero_mem 0 (scenario_session 18)
                 [0x63, 0x6F, 0x6D, 0] 3 K_NO_WAIT))"

definition long_app_id_response :: "u8 list" where
  "long_app_id_response = 1 # replicate 32 0x41 @ [0, 0, 1, 0, 0x58]"

text \<open>The answer to a request for "com.apple.mobilecal": the app identifier
  and an empty DisplayName.\<close>

definition calendar_response :: "u8 list" where
  "calendar_response = 1 # calendar_app_id @ [0, 0, 0]"

text \<open>A session with a 32-byte staging buffer in which the request for
  "com.apple.mobilecal" was written, completed and answered, and the same
  session after the request was written and completed a second time.\<close>

definition calendar_answered_session :: bt_gatt_ancs_c where
  "calendar_answered_session =
     the (ancs_parse_get_attrs_response zero_mem
            (bt_gatt_ancs_c_cp_write_callback zero_evt
               (snd (the (ancs_c_app_attr_request zero_mem 0 (scenario_session 32)
                            calendar_app_id 19 K_NO_WAIT))) 0)
            calendar_response)"

definition calendar_rerequested_session :: bt_gatt_ancs_c where
  "calendar_rerequested_session =
     bt_gatt_ancs_c_cp_write_callback zero_evt
       (snd (the (ancs_c_app_attr_request zero_mem 0 calendar_answered_session
                    calendar_app_id 19 K_NO_WAIT))) 0"

text \<open>The requested session when the caller's buffers were never cleared:
  each holds the byte 0x41 throughout.\<close>

definition uncleared_heap :: "addr \<Rightarrow> u8 list" where
  "uncleared_heap a = (if a < 9 then replicate 32 0x41 else [])"

definition uncleared_session :: bt_gatt_ancs_c where
  "uncleared_session = requested_session\<lparr>heap := uncleared_heap\<rparr>"

text \<open>A response with the Title "nRF", whole and cut after the second byte
  of the notification UID, and a response with an empty Title.\<close>

definition title_response :: "u8 list" where
  "title_response = [0, 1, 2, 3, 4, 1, 3, 0, 0x6E, 0x52, 0x46]"

definition title_response_cut :: "u8 list list" where
  "title_response_cut = [[0, 1, 2], [3, 4, 1, 3, 0, 0x6E, 0x52, 0x46]]"

definition empty_title_response :: "u8 list" where
  "empty_title_response = [0, 1, 2, 3, 4, 1, 0, 0]"

text \<open>What a handler call shows of an attribute event: the attribute id, the
  received length and the referenced buffer.\<close>

definition call_view :: "handler_call \<Rightarrow> nat \<times> u16 \<times> u8 list" where
  "call_view h = (attr_id (attr (call_evt h)), attr_len (attr (call_evt h)), call_attr_data h)"

text \<open>A buffer is NUL-terminated at or before offset \<open>m\<close>.\<close>

definition nul_within :: "u8 list \<Rightarrow> nat \<Rightarrow> bool" where
  "nul_within buf m = (0 \<in> set (take (Suc m) buf))"

text \<open>A session with the Title registered with a buffer of one byte, after its
  request was written, and a response with a Title of one byte.\<close>

definition one_byte_title_session :: bt_gatt_ancs_c where
  "one_byte_title_session =
     snd (the (bt_gatt_ancs_c_request_attrs 0
                 (snd (bt_gatt_ancs_c_attr_add (bt_gatt_ancs_c_init 18 (sample_heap(1 := [0])))
                         1 (Some 1) 1))
                 scenario_notif K_NO_WAIT))"

definition one_byte_title_response :: "u8 list" where
  "one_byte_title_response = [0, 1, 2, 3, 4, 1, 1, 0, 0x6E]"

text \<open>The same session after a first record that ends behind the first byte
  of a Title of two bytes.\<close>

definition one_byte_title_midresponse :: bt_gatt_ancs_c where
  "one_byte_title_midresponse =
     the (ancs_parse_get_attrs_response zero_mem one_byte_title_session
            [0, 1, 2, 3, 4, 1, 2, 0, 0x6E])"

text \<open>A response with a Title of two bytes, in two records.\<close>

definition two_byte_title_records :: "u8 list list" where
  "two_byte_title_records = [[0, 1, 2, 3, 4, 1, 2, 0, 0x6E], [0x52]]"


section \<open>Evaluation on concrete inputs\<close>

lemma replicate_numeral_Cons: "replicate (numeral k) x = x # replicate (pred_numeral k) x"
  by (simp add: numeral_eq_Suc)

lemma parse_loop_step:
  "index < length d \<Longrightarrow> parse_loop mem d c index =
     parse_loop mem d (fst (parse_turn mem d c index)) (snd (parse_turn mem d c index))"
  by (subst parse_loop.simps) simp

lemma parse_loop_end: "\<not> index < length d \<Longrightarrow> parse_loop mem d c index = Some c"
  by (subst parse_loop.simps) simp

lemma app_attr_get_loop_step:
  "fst v \<noteq> APP_ATTR_DONE \<Longrightarrow> fst v \<noteq> APP_ATTR_ABORT \<Longrightarrow>
   app_attr_get_loop mem p n v = app_attr_get_loop mem p n (app_attr_get_step mem p n v)"
  by (subst app_attr_get_loop.simps) simp

lemma app_attr_get_loop_end:
  "fst v = APP_ATTR_DONE \<or> fst v = APP_ATTR_ABORT \<Longrightarrow> app_attr_get_loop mem p n v = Some v"
  by (subst app_attr_get_loop.simps) auto

lemmas const_defs =
  BT_GATT_ANCS_ATTR_DATA_MAX_def BT_GATT_ANCS_NB_OF_CATEGORY_ID_def
  BT_GATT_ANCS_NB_OF_NOTIF_ATTR_def BT_GATT_ANCS_NB_OF_APP_ATTR_def
  BT_GATT_ANCS_NB_OF_EVT_ID_def BT_GATT_ANCS_NOTIFICATION_DATA_LENGTH_def
  BT_GATT_ANCS_EVENT_FLAG_SILENT_def BT_GATT_ANCS_EVENT_FLAG_IMPORTANT_def
  BT_GATT_ANCS_EVENT_FLAG_PREEXISTING_def BT_GATT_ANCS_EVENT_FLAG_POSITIVE_ACTION_def
  BT_GATT_ANCS_EVENT_FLAG_NEGATIVE_ACTION_def
  BT_GATT_ANCS_COMMAND_ID_GET_NOTIF_ATTRIBUTES_def BT_GATT_ANCS_COMMAND_ID_GET_APP_ATTRIBUTES_def
  BT_GATT_ANCS_COMMAND_ID_GET_PERFORM_NOTIF_ACTION_def
  BT_GATT_ANCS_NOTIF_ATTR_ID_TITLE_def BT_GATT_ANCS_NOTIF_ATTR_ID_SUBTITLE_def
  BT_GATT_ANCS_NOTIF_ATTR_ID_MESSAGE_def
  EAGAIN_def ENOMEM_def EBUSY_def EINVAL_def

lemmas parser_defs =
  parse_turn_def assign_parse_state_def command_id_parse_def notif_uid_parse_def
  app_id_parse_def attr_id_parse_def attr_len1_parse_def attr_len2_parse_def attr_data_parse_def
  attr_skip_def all_req_attrs_parsed_def attr_is_requested_def p_attr_list_at_def attr_data_put_def
  evt_handler_def fault_add_def sys_get_le32_def rd_def

lemmas encoder_defs =
  app_attr_get_step_def app_attr_encode_cmd_id_def app_attr_encode_app_id_def
  app_attr_encode_attr_id_def app_attr_is_requested_def ANCS_GATTC_WRITE_PAYLOAD_LEN_MAX_def
  cp_put_def

lemma scenario_session_eq:
  "scenario_session W =
     \<lparr>handle_cp = 0,
      cp_write_params_sem = \<lparr>count = 1, limit = 1\<rparr>,
      cp_data = replicate W 0,
      ancs_notif_attr_list =
        [\<lparr>get = True, l_attr_id = 0, l_attr_len = 32, l_p_attr_data = Some 0\<rparr>,
         \<lparr>get = True, l_attr_id = 0, l_attr_len = 32, l_p_attr_data = Some 1\<rparr>,
         zero_attr_list_entry,
         \<lparr>get = True, l_attr_id = 0, l_attr_len = 32, l_p_attr_data = Some 3\<rparr>,
         zero_attr_list_entry,
         \<lparr>get = True, l_attr_id = 0, l_attr_len = 32, l_p_attr_data = Some 5\<rparr>,
         \<lparr>get = True, l_attr_id = 0, l_attr_len = 32, l_p_attr_data = Some 6\<rparr>,
         \<lparr>get = True, l_attr_id = 0, l_attr_len = 32, l_p_attr_data = Some 7\<rparr>],
      ancs_app_attr_list = [\<lparr>get = True, l_attr_id = 0, l_attr_len = 32, l_p_attr_data = Some 8\<rparr>],
      number_of_requested_attr = 0,
      parse_info = \<lparr>p_attr_list = LIST_NULL, nb_of_attr = 0, expected_number_of_attrs = 0,
                     parse_state = COMMAND_ID, command_id = 0, current_attr_index = 0,
                     current_app_id_index = 0\<rparr>,
      evt = zero_evt,
      heap = sample_heap,
      handler_calls = [],
      gatt_writes = [],
      faults = []\<rparr>"
  by (simp add: scenario_session_def bt_gatt_ancs_c_init_def bt_gatt_ancs_c_attr_add_def
      bt_gatt_ancs_c_app_attr_add_def Let_def k_sem_init_def const_defs zero_attr_list_entry_def
      replicate_numeral_Cons)

lemma requested_session_eq:
  "requested_session = (scenario_session 18)
     \<lparr>cp_write_params_sem := \<lparr>count = 0, limit = 1\<rparr>,
      cp_data := [0, 1, 2, 3, 4, 0, 1, 32, 0, 3, 32, 0, 5, 6, 7, 0, 0, 0],
      number_of_requested_attr := 6,
      parse_info := (parse_info (scenario_session 18))\<lparr>expected_number_of_attrs := 6\<rparr>,
      gatt_writes := [\<lparr>w_handle = 0, w_data = [0, 1, 2, 3, 4, 0, 1, 32, 0, 3, 32, 0, 5, 6, 7]\<rparr>]\<rparr>"
  by (simp add: requested_session_def scenario_session_eq bt_gatt_ancs_c_request_attrs_def
      bt_gatt_ancs_get_notif_attrs_def
      bt_gatt_ancs_verify_notification_format_def scenario_notif_def k_sem_take_def Let_def
      cp_put_def sys_put_le32_def sys_put_le16_def bt_gatt_ancs_c_cp_write_def
      get_notif_attrs_loop.simps
      const_defs zero_attr_list_entry_def replicate_numeral_Cons)

lemma midresponse_session_eq:
  "midresponse_session = requested_session
     \<lparr>parse_info := \<lparr>p_attr_list = LIST_NOTIF, nb_of_attr = 8,
             expected_number_of_attrs = 5, parse_state = ATTR_DATA,
             command_id = 0, current_attr_index = 1, current_app_id_index = 0\<rparr>,
      evt := zero_evt\<lparr>evt_type := BT_GATT_ANCS_C_EVT_NOTIF_ATTRIBUTE,
             notif_uid := 0x04030201,
             attr := \<lparr>attr_len = 3, attr_id = 1, p_attr_data = Some 1\<rparr>\<rparr>,
      heap := sample_heap(1 := 0x6E # replicate 31 0)\<rparr>"
  by (simp add: midresponse_session_def requested_session_eq ancs_parse_get_attrs_response_def
     scenario_session_eq parse_loop_step parse_loop_end parser_defs const_defs
     zero_attr_list_entry_def sample_heap_def replicate_numeral_Cons zero_evt_def)


section \<open>Notification Source decoder\<close>

lemma flag_bit: "drop_bit k (f::u8) AND 1 = of_bool (bit f k)"
  by (simp add: and_one_eq mod_2_eq_odd bit_iff_odd_drop_bit)

lemma put_get_le32:
  "sys_put_le32 (ucast (a::u8) OR push_bit 8 (ucast (b::u8)) OR push_bit 16 (ucast (c::u8))
     OR push_bit 24 (ucast (d::u8))) = [a, b, c, d]"
  unfolding sys_put_le32_def
  by (simp, intro conjI; rule bit_word_eqI) (auto simp: bit_simps dest: bit_imp_le_length)

lemma sys_get_le32_in_range:
  "i + 4 \<le> length R \<Longrightarrow> sys_get_le32 mem R i =
     ucast (R ! i) OR push_bit 8 (ucast (R ! (i + 1))) OR push_bit 16 (ucast (R ! (i + 2)))
       OR push_bit 24 (ucast (R ! (i + 3)))"
  by (simp add: sys_get_le32_def rd_def)

text \<open>C2. A Notification Source record of exactly 8 bytes makes the decoder
  call the handler exactly once and leaves the session otherwise unchanged. The
  event is InvalidNotif when byte 0 is at least 3 or byte 2 is at least 12, and
  Notif otherwise; its fields are byte 0, bits 0..4 of byte 1 (the higher bits
  of byte 1 appear nowhere), byte 2, byte 3, and the little-endian u32 of bytes
  4..7, from which the four bytes are recovered. Nothing of the event's type or
  notification depends on the session or on an earlier record.\<close>

theorem parse_notif_len8:
  assumes "length R = 8"
  shows "parse_notif mem ancs_evt0 ancs_c R =
      ancs_c\<lparr>handler_calls := handler_calls ancs_c @
        [\<lparr>call_evt = ancs_evt0
            \<lparr>notif :=
               \<lparr>n_notif_uid = sys_get_le32 mem R 4,
                evt_id = R ! 0,
                evt_flags =
                  \<lparr>silent = of_bool (bit (R ! 1) 0),
                   important = of_bool (bit (R ! 1) 1),
                   pre_existing = of_bool (bit (R ! 1) 2),
                   positive_action = of_bool (bit (R ! 1) 3),
                   negative_action = of_bool (bit (R ! 1) 4)\<rparr>,
                category_id = R ! 2,
                category_count = R ! 3\<rparr>,
             evt_type :=
               (if R ! 0 \<ge> 3 \<or> R ! 2 \<ge> 12 then BT_GATT_ANCS_C_EVT_INVALID_NOTIF
                else BT_GATT_ANCS_C_EVT_NOTIF)\<rparr>,
          call_attr_data =
            (case p_attr_data (attr ancs_evt0) of None \<Rightarrow> [] | Some a \<Rightarrow> heap ancs_c a)\<rparr>]\<rparr>
    \<and> sys_put_le32 (sys_get_le32 mem R 4) = [R ! 4, R ! 5, R ! 6, R ! 7]"
proof
  have g: "sys_get_le32 mem R 4 =
     ucast (R ! 4) OR push_bit 8 (ucast (R ! 5)) OR push_bit 16 (ucast (R ! 6))
       OR push_bit 24 (ucast (R ! 7))"
    using assms by (simp add: sys_get_le32_in_range)
  show "sys_put_le32 (sys_get_le32 mem R 4) = [R ! 4, R ! 5, R ! 6, R ! 7]"
    unfolding g by (rule put_get_le32)
  have r: "rd mem R 0 = R ! 0" "rd mem R 1 = R ! 1" "rd mem R 2 = R ! 2" "rd mem R 3 = R ! 3"
    using assms by (simp_all add: rd_def)
  show "parse_notif mem ancs_evt0 ancs_c R =
      ancs_c\<lparr>handler_calls := handler_calls ancs_c @
        [\<lparr>call_evt = ancs_evt0
            \<lparr>notif :=
               \<lparr>n_notif_uid = sys_get_le32 mem R 4,
                evt_id = R ! 0,
                evt_flags =
                  \<lparr>silent = of_bool (bit (R ! 1) 0),
                   important = of_bool (bit (R ! 1) 1),
                   pre_existing = of_bool (bit (R ! 1) 2),
                   positive_action = of_bool (bit (R ! 1) 3),
                   negative_action = of_bool (bit (R ! 1) 4)\<rparr>,
                category_id = R ! 2,
                category_count = R ! 3\<rparr>,
             evt_type :=
               (if R ! 0 \<ge> 3 \<or> R ! 2 \<ge> 12 then BT_GATT_ANCS_C_EVT_INVALID_NOTIF
                else BT_GATT_ANCS_C_EVT_NOTIF)\<rparr>,
          call_attr_data =
            (case p_attr_data (attr ancs_evt0) of None \<Rightarrow> [] | Some a \<Rightarrow> heap ancs_c a)\<rparr>]\<rparr>"
    unfolding parse_notif_def Let_def r flag_bit bt_gatt_ancs_verify_notification_format_def
      BT_GATT_ANCS_NOTIFICATION_DATA_LENGTH_def BT_GATT_ANCS_NB_OF_EVT_ID_def
      BT_GATT_ANCS_NB_OF_CATEGORY_ID_def
      BT_GATT_ANCS_EVENT_FLAG_SILENT_def BT_GATT_ANCS_EVENT_FLAG_IMPORTANT_def
      BT_GATT_ANCS_EVENT_FLAG_PREEXISTING_def BT_GATT_ANCS_EVENT_FLAG_POSITIVE_ACTION_def
      BT_GATT_ANCS_EVENT_FLAG_NEGATIVE_ACTION_def
    using assms by (simp add: evt_handler_def EINVAL_def)
qed


theorem parse_notif_len8_witness:
  "length [0, 0x18, 6, 2, 1, 2, 3, 4 :: u8] = 8
   \<and> parse_notif zero_mem zero_evt (scenario_session 18) [0, 0x18, 6, 2, 1, 2, 3, 4] =
       (scenario_session 18)
         \<lparr>handler_calls :=
            [\<lparr>call_evt = zero_evt\<lparr>notif := scenario_notif, evt_type := BT_GATT_ANCS_C_EVT_NOTIF\<rparr>,
              call_attr_data = []\<rparr>]\<rparr>"
proof (rule conjI)
  show len: "length [0, 0x18, 6, 2, 1, 2, 3, 4 :: u8] = 8" by simp
  note e = parse_notif_len8 [OF len, of zero_mem zero_evt "scenario_session 18", THEN conjunct1]
  show "parse_notif zero_mem zero_evt (scenario_session 18) [0, 0x18, 6, 2, 1, 2, 3, 4] =
       (scenario_session 18)
         \<lparr>handler_calls :=
            [\<lparr>call_evt = zero_evt\<lparr>notif := scenario_notif, evt_type := BT_GATT_ANCS_C_EVT_NOTIF\<rparr>,
              call_attr_data = []\<rparr>]\<rparr>"
    unfolding e
    by (simp add: scenario_session_eq scenario_notif_def zero_evt_def sys_get_le32_def rd_def)
qed

text \<open>C5. For a Notification Source record whose length is not 8 the decoder
  calls the handler twice for that record: first with InvalidNotif, then again
  with the outcome of decoding offsets 0..7.\<close>

theorem parse_notif_bad_length_two_events:
  assumes "length R \<noteq> 8"
  shows "map (evt_type \<circ> call_evt) (handler_calls (parse_notif mem ancs_evt0 ancs_c R)) =
         map (evt_type \<circ> call_evt) (handler_calls ancs_c) @
           [BT_GATT_ANCS_C_EVT_INVALID_NOTIF,
            (if rd mem R 0 \<ge> 3 \<or> rd mem R 2 \<ge> 12 then BT_GATT_ANCS_C_EVT_INVALID_NOTIF
             else BT_GATT_ANCS_C_EVT_NOTIF)]"
  using assms
  by (simp add: parse_notif_def Let_def evt_handler_def fault_add_def
      bt_gatt_ancs_verify_notification_format_def
      BT_GATT_ANCS_NOTIFICATION_DATA_LENGTH_def BT_GATT_ANCS_NB_OF_EVT_ID_def
      BT_GATT_ANCS_NB_OF_CATEGORY_ID_def EINVAL_def)

theorem parse_notif_bad_length_two_events_witness:
  "length [0, 0x18, 6, 2, 1, 2, 3, 4, 0xFF :: u8] \<noteq> 8
   \<and> map (evt_type \<circ> call_evt)
        (handler_calls (parse_notif zero_mem zero_evt (scenario_session 18)
           [0, 0x18, 6, 2, 1, 2, 3, 4, 0xFF]))
      = [BT_GATT_ANCS_C_EVT_INVALID_NOTIF, BT_GATT_ANCS_C_EVT_NOTIF]"
proof (rule conjI)
  show len: "length [0, 0x18, 6, 2, 1, 2, 3, 4, 0xFF :: u8] \<noteq> 8" by simp
  show "map (evt_type \<circ> call_evt)
        (handler_calls (parse_notif zero_mem zero_evt (scenario_session 18)
           [0, 0x18, 6, 2, 1, 2, 3, 4, 0xFF]))
      = [BT_GATT_ANCS_C_EVT_INVALID_NOTIF, BT_GATT_ANCS_C_EVT_NOTIF]"
    unfolding parse_notif_bad_length_two_events [OF len]
    by (simp add: scenario_session_eq rd_def)
qed


section \<open>Control Point encoders and dispatchers\<close>

lemma cp_put_in_range:
  "i < length (cp_data c) \<Longrightarrow>
   cp_put c i v = c\<lparr>cp_data := take i (cp_data c) @ v # drop (Suc i) (cp_data c)\<rparr>"
  by (simp add: cp_put_def upd_conv_take_nth_drop)

lemma cp_put_list_in_range:
  "i + length vs \<le> length (cp_data c) \<Longrightarrow>
   cp_put_list c i vs = c\<lparr>cp_data := take i (cp_data c) @ vs @ drop (i + length vs) (cp_data c)\<rparr>"
proof (induction vs arbitrary: c i)
  case Nil
  then show ?case by simp
next
  case (Cons v vs)
  have lt: "i < length (cp_data c)" using Cons.prems by simp
  have "cp_put_list (cp_put c i v) (i + 1) vs =
        (cp_put c i v)\<lparr>cp_data := take (i + 1) (cp_data (cp_put c i v)) @ vs @
            drop (i + 1 + length vs) (cp_data (cp_put c i v))\<rparr>"
    using Cons.prems by (intro Cons.IH) (simp add: cp_put_in_range lt)
  then show ?case
    using lt by (simp add: cp_put_in_range min_def take_Suc_conv_app_nth add.commute)
qed

lemma length_sys_put_le32: "length (sys_put_le32 v) = 4"
  by (simp add: sys_put_le32_def)

lemma length_sys_put_le16: "length (sys_put_le16 v) = 2"
  by (simp add: sys_put_le16_def)

lemma encode_notif_action_eq:
  assumes "6 \<le> length (cp_data c)"
  shows "encode_notif_action c uid a =
    (c\<lparr>cp_data := BT_GATT_ANCS_COMMAND_ID_GET_PERFORM_NOTIF_ACTION # sys_put_le32 uid @
          action_id_val a # drop 6 (cp_data c)\<rparr>, 6)"
proof -
  define c1 where "c1 = cp_put c 0 BT_GATT_ANCS_COMMAND_ID_GET_PERFORM_NOTIF_ACTION"
  define c2 where "c2 = cp_put_list c1 1 (sys_put_le32 uid)"
  define c3 where "c3 = cp_put c2 5 (action_id_val a)"
  have pos: "0 < length (cp_data c)" using assms by linarith
  have c1: "c1 = c\<lparr>cp_data := BT_GATT_ANCS_COMMAND_ID_GET_PERFORM_NOTIF_ACTION # drop 1 (cp_data c)\<rparr>"
    unfolding c1_def by (simp add: cp_put_in_range [OF pos])
  have "1 + length (sys_put_le32 uid) \<le> length (cp_data c1)"
    using assms by (simp add: c1 length_sys_put_le32)
  from cp_put_list_in_range [OF this]
  have c2: "c2 = c\<lparr>cp_data := BT_GATT_ANCS_COMMAND_ID_GET_PERFORM_NOTIF_ACTION #
      sys_put_le32 uid @ drop 5 (cp_data c)\<rparr>"
    unfolding c2_def by (simp add: c1 length_sys_put_le32)
  have "5 < length (cp_data c2)"
    using assms by (simp add: c2 length_sys_put_le32)
  from cp_put_in_range [OF this]
  have c3: "c3 = c\<lparr>cp_data := BT_GATT_ANCS_COMMAND_ID_GET_PERFORM_NOTIF_ACTION #
      sys_put_le32 uid @ action_id_val a # drop 6 (cp_data c)\<rparr>"
    unfolding c3_def by (simp add: c2 length_sys_put_le32)
  have "encode_notif_action c uid a = (c3, 6)"
    unfolding encode_notif_action_def Let_def c3_def c2_def c1_def ..
  then show ?thesis by (simp add: c3)
qed

text \<open>C8. With the mutex free and a staging buffer of at least 6 bytes, the
  perform-action dispatcher, for every uid and either action, hands the GATT
  layer exactly the 6 bytes 0x02, the uid as little-endian u32 and the action
  byte (0 for Positive, 1 for Negative); the encoder returns the length 6.\<close>

theorem perform_notif_action_encoding:
  assumes "0 < count (cp_write_params_sem c)" and "6 \<le> length (cp_data c)"
  shows "bt_gatt_ancs_perform_notif_action 0 c uid a timeout =
     Some (0, c\<lparr>cp_write_params_sem := (cp_write_params_sem c)
                     \<lparr>count := count (cp_write_params_sem c) - 1\<rparr>,
                 cp_data := [2, ucast uid, ucast (drop_bit 8 uid), ucast (drop_bit 16 uid),
                             ucast (drop_bit 24 uid),
                             (case a of ACTION_ID_POSITIVE \<Rightarrow> 0 | ACTION_ID_NEGATIVE \<Rightarrow> 1)]
                            @ drop 6 (cp_data c),
                 gatt_writes := gatt_writes c @
                   [\<lparr>w_handle = handle_cp c,
                     w_data = [2, ucast uid, ucast (drop_bit 8 uid), ucast (drop_bit 16 uid),
                               ucast (drop_bit 24 uid),
                               (case a of ACTION_ID_POSITIVE \<Rightarrow> 0 | ACTION_ID_NEGATIVE \<Rightarrow> 1)]\<rparr>]\<rparr>)
     \<and> snd (encode_notif_action c uid a) = 6"
  using assms
  by (simp add: bt_gatt_ancs_perform_notif_action_def k_sem_take_def encode_notif_action_eq
      length_sys_put_le32 action_id_val_def bt_gatt_ancs_c_cp_write_def
      BT_GATT_ANCS_COMMAND_ID_GET_PERFORM_NOTIF_ACTION_def)
     (simp add: sys_put_le32_def)

theorem perform_notif_action_encoding_witness:
  "0 < count (cp_write_params_sem (scenario_session 18))
   \<and> 6 \<le> length (cp_data (scenario_session 18))
   \<and> map_option (gatt_writes \<circ> snd)
        (bt_gatt_ancs_perform_notif_action 0 (scenario_session 18) 0x04030201
           ACTION_ID_POSITIVE K_NO_WAIT) =
       Some [\<lparr>w_handle = 0, w_data = [2, 1, 2, 3, 4, 0]\<rparr>]
   \<and> snd (encode_notif_action (scenario_session 18) 0x04030201 ACTION_ID_POSITIVE) = 6"
proof -
  have h1: "0 < count (cp_write_params_sem (scenario_session 18))"
    by (simp add: scenario_session_eq)
  have h2: "6 \<le> length (cp_data (scenario_session 18))"
    by (simp add: scenario_session_eq)
  note t = perform_notif_action_encoding [OF h1 h2, of "0x04030201" ACTION_ID_POSITIVE K_NO_WAIT]
  have "map_option (gatt_writes \<circ> snd)
        (bt_gatt_ancs_perform_notif_action 0 (scenario_session 18) 0x04030201
           ACTION_ID_POSITIVE K_NO_WAIT) =
       Some [\<lparr>w_handle = 0, w_data = [2, 1, 2, 3, 4, 0]\<rparr>]"
    unfolding t [THEN conjunct1] by (simp add: scenario_session_eq)
  with h1 h2 t [THEN conjunct2] show ?thesis by blast
qed

lemma k_sem_give_mutex:
  assumes "limit s = 1" and "count s \<le> 1"
  shows "k_sem_give s = s\<lparr>count := 1\<rparr>"
proof (cases "count s = 1")
  case True
  then show ?thesis using assms by (simp add: k_sem_give_def)
next
  case False
  then have "count s = 0" using assms by linarith
  then show ?thesis using assms by (simp add: k_sem_give_def)
qed

text \<open>C9. The write-complete callback gives the semaphore and calls the
  handler exactly once with an NpError event carrying the status, for every
  status byte, zero or not. With the single-permit semaphore the count is 1
  afterwards, a dispatch that follows acquires it and returns success, and a
  dispatch on a held semaphore returns \<open>-EBUSY\<close>.\<close>

theorem cp_write_callback_releases:
  assumes "limit (cp_write_params_sem c) = 1" and "count (cp_write_params_sem c) \<le> 1"
      and "6 \<le> length (cp_data c)"
  shows "bt_gatt_ancs_c_cp_write_callback ancs_evt0 c err =
           c\<lparr>cp_write_params_sem := (cp_write_params_sem c)\<lparr>count := 1\<rparr>,
              handler_calls := handler_calls c @
                [\<lparr>call_evt = ancs_evt0\<lparr>evt_type := BT_GATT_ANCS_C_EVT_NP_ERROR,
                                         err_code_np := err\<rparr>,
                  call_attr_data = (case p_attr_data (attr ancs_evt0) of
                                      None \<Rightarrow> [] | Some a \<Rightarrow> heap c a)\<rparr>]\<rparr>
     \<and> map_option fst (bt_gatt_ancs_perform_notif_action 0
           (bt_gatt_ancs_c_cp_write_callback ancs_evt0 c err) uid a timeout) = Some 0
     \<and> map_option fst (bt_gatt_ancs_perform_notif_action 0
           (c\<lparr>cp_write_params_sem := (cp_write_params_sem c)\<lparr>count := 0\<rparr>\<rparr>) uid a K_NO_WAIT)
         = Some (- EBUSY)"
proof -
  have cb: "bt_gatt_ancs_c_cp_write_callback ancs_evt0 c err =
           c\<lparr>cp_write_params_sem := (cp_write_params_sem c)\<lparr>count := 1\<rparr>,
              handler_calls := handler_calls c @
                [\<lparr>call_evt = ancs_evt0\<lparr>evt_type := BT_GATT_ANCS_C_EVT_NP_ERROR,
                                         err_code_np := err\<rparr>,
                  call_attr_data = (case p_attr_data (attr ancs_evt0) of
                                      None \<Rightarrow> [] | Some a \<Rightarrow> heap c a)\<rparr>]\<rparr>"
    by (simp add: bt_gatt_ancs_c_cp_write_callback_def Let_def evt_handler_def
        k_sem_give_mutex [OF assms(1,2)] split: option.split)
  have ok: "map_option fst (bt_gatt_ancs_perform_notif_action 0
           (bt_gatt_ancs_c_cp_write_callback ancs_evt0 c err) uid a timeout) = Some 0"
    unfolding cb
    by (subst perform_notif_action_encoding [THEN conjunct1]) (use assms(3) in simp_all)
  have busy: "map_option fst (bt_gatt_ancs_perform_notif_action 0
           (c\<lparr>cp_write_params_sem := (cp_write_params_sem c)\<lparr>count := 0\<rparr>\<rparr>) uid a K_NO_WAIT)
         = Some (- EBUSY)"
    by (simp add: bt_gatt_ancs_perform_notif_action_def k_sem_take_def EBUSY_def)
  from cb ok busy show ?thesis by blast
qed


theorem cp_write_callback_releases_witness:
  "limit (cp_write_params_sem requested_session) = 1
   \<and> count (cp_write_params_sem requested_session) \<le> 1
   \<and> 6 \<le> length (cp_data requested_session)
   \<and> count (cp_write_params_sem requested_session) = 0
   \<and> count (cp_write_params_sem
         (bt_gatt_ancs_c_cp_write_callback zero_evt requested_session 0xA3)) = 1
   \<and> map (\<lambda>h. (evt_type (call_evt h), err_code_np (call_evt h)))
         (handler_calls (bt_gatt_ancs_c_cp_write_callback zero_evt requested_session 0xA3))
       = [(BT_GATT_ANCS_C_EVT_NP_ERROR, 0xA3)]
   \<and> map_option fst (bt_gatt_ancs_perform_notif_action 0
           (bt_gatt_ancs_c_cp_write_callback zero_evt requested_session 0xA3)
           0x04030201 ACTION_ID_POSITIVE K_NO_WAIT) = Some 0"
proof -
  have h1: "limit (cp_write_params_sem requested_session) = 1"
    by (simp add: requested_session_eq)
  have h2: "count (cp_write_params_sem requested_session) \<le> 1"
    by (simp add: requested_session_eq)
  have h3: "6 \<le> length (cp_data requested_session)"
    by (simp add: requested_session_eq)
  have h4: "count (cp_write_params_sem requested_session) = 0"
    by (simp add: requested_session_eq)
  note t = cp_write_callback_releases [OF h1 h2 h3, of zero_evt "0xA3" "0x04030201"
      ACTION_ID_POSITIVE K_NO_WAIT]
  have a: "count (cp_write_params_sem
         (bt_gatt_ancs_c_cp_write_callback zero_evt requested_session 0xA3)) = 1"
    unfolding t [THEN conjunct1] by simp
  have b: "map (\<lambda>h. (evt_type (call_evt h), err_code_np (call_evt h)))
         (handler_calls (bt_gatt_ancs_c_cp_write_callback zero_evt requested_session 0xA3))
       = [(BT_GATT_ANCS_C_EVT_NP_ERROR, 0xA3)]"
    unfolding t [THEN conjunct1] by (simp add: requested_session_eq scenario_session_eq)
  from h1 h2 h3 h4 a b t [THEN conjunct2, THEN conjunct1] show ?thesis by blast
qed

text \<open>C3 as the code has it. When the semaphore is not available and the wait
  is bounded, each of the three dispatchers returns the error of
  \<open>k_sem_take\<close> (\<open>-EBUSY\<close> without waiting, \<open>-EAGAIN\<close> after a timed wait).
  The perform-action dispatcher returns the session unchanged. The two
  attribute-request dispatchers return it with \<open>parse_info.parse_state\<close> set to
  \<open>COMMAND_ID\<close> and nothing else changed: no write reaches the GATT layer, and
  the staging buffer, the semaphore and the handler calls are as before.\<close>

theorem dispatch_busy:
  assumes "count (cp_write_params_sem c) = 0"
      and "timeout \<noteq> K_FOREVER"
      and "bt_gatt_ancs_verify_notification_format n = 0"
      and "len \<noteq> 0"
      and "rd mem p_app_id len = 0"
  shows "bt_gatt_ancs_perform_notif_action write_err c uid a timeout =
           Some (if timeout = K_NO_WAIT then - EBUSY else - EAGAIN, c)
     \<and> bt_gatt_ancs_c_request_attrs write_err c n timeout =
           Some (if timeout = K_NO_WAIT then - EBUSY else - EAGAIN,
                 c\<lparr>parse_info := (parse_info c)\<lparr>parse_state := COMMAND_ID\<rparr>\<rparr>)
     \<and> bt_gatt_ancs_c_app_attr_request mem write_err c p_app_id len timeout =
           Some (if timeout = K_NO_WAIT then - EBUSY else - EAGAIN,
                 c\<lparr>parse_info := (parse_info c)\<lparr>parse_state := COMMAND_ID\<rparr>\<rparr>)"
  using assms
  by (cases timeout)
     (simp_all add: bt_gatt_ancs_perform_notif_action_def bt_gatt_ancs_c_request_attrs_def
       bt_gatt_ancs_get_notif_attrs_def bt_gatt_ancs_c_app_attr_request_def
       ancs_c_app_attr_request_def app_attr_get_def k_sem_take_def EBUSY_def EAGAIN_def)

theorem dispatch_busy_witness:
  "count (cp_write_params_sem midresponse_session) = 0
   \<and> K_NO_WAIT \<noteq> K_FOREVER
   \<and> bt_gatt_ancs_verify_notification_format scenario_notif = 0
   \<and> (19 :: nat) \<noteq> 0
   \<and> rd zero_mem calendar_app_id 19 = 0
   \<and> bt_gatt_ancs_perform_notif_action 0 midresponse_session 0x04030201 ACTION_ID_POSITIVE
         K_NO_WAIT = Some (- EBUSY, midresponse_session)
   \<and> bt_gatt_ancs_c_request_attrs 0 midresponse_session scenario_notif K_NO_WAIT =
           Some (- EBUSY, midresponse_session
                   \<lparr>parse_info := (parse_info midresponse_session)\<lparr>parse_state := COMMAND_ID\<rparr>\<rparr>)
   \<and> bt_gatt_ancs_c_app_attr_request zero_mem 0 midresponse_session calendar_app_id 19 K_NO_WAIT =
           Some (- EBUSY, midresponse_session
                   \<lparr>parse_info := (parse_info midresponse_session)\<lparr>parse_state := COMMAND_ID\<rparr>\<rparr>)"
proof -
  have h1: "count (cp_write_params_sem midresponse_session) = 0"
    by (simp add: midresponse_session_eq requested_session_eq)
  have h2: "K_NO_WAIT \<noteq> K_FOREVER" by simp
  have h3: "bt_gatt_ancs_verify_notification_format scenario_notif = 0"
    by (simp add: bt_gatt_ancs_verify_notification_format_def scenario_notif_def
        BT_GATT_ANCS_NB_OF_EVT_ID_def BT_GATT_ANCS_NB_OF_CATEGORY_ID_def)
  have h4: "(19 :: nat) \<noteq> 0" by simp
  have h5: "rd zero_mem calendar_app_id 19 = 0"
    by (simp add: rd_def calendar_app_id_def)
  from dispatch_busy [OF h1 h2 h3 h4 h5, of 0 "0x04030201" ACTION_ID_POSITIVE]
  have "bt_gatt_ancs_perform_notif_action 0 midresponse_session 0x04030201 ACTION_ID_POSITIVE
         K_NO_WAIT = Some (- EBUSY, midresponse_session)
   \<and> bt_gatt_ancs_c_request_attrs 0 midresponse_session scenario_notif K_NO_WAIT =
           Some (- EBUSY, midresponse_session
                   \<lparr>parse_info := (parse_info midresponse_session)\<lparr>parse_state := COMMAND_ID\<rparr>\<rparr>)
   \<and> bt_gatt_ancs_c_app_attr_request zero_mem 0 midresponse_session calendar_app_id 19 K_NO_WAIT =
           Some (- EBUSY, midresponse_session
                   \<lparr>parse_info := (parse_info midresponse_session)\<lparr>parse_state := COMMAND_ID\<rparr>\<rparr>)"
    by simp
  with h1 h2 h3 h4 h5 show ?thesis by blast
qed

text \<open>The claim as the specification states it fails: in the middle of a
  response (parse state \<open>ATTR_DATA\<close>), a request that finds the mutex held
  returns \<open>-EBUSY\<close> and has reset the parse state.\<close>

theorem dispatch_busy_counterexample:
  "count (cp_write_params_sem midresponse_session) = 0
   \<and> parse_state (parse_info midresponse_session) = ATTR_DATA
   \<and> map_option fst
        (bt_gatt_ancs_c_request_attrs 0 midresponse_session scenario_notif K_NO_WAIT)
       = Some (- EBUSY)
   \<and> map_option (parse_state \<circ> parse_info \<circ> snd)
        (bt_gatt_ancs_c_request_attrs 0 midresponse_session scenario_notif K_NO_WAIT)
       = Some COMMAND_ID
   \<and> bt_gatt_ancs_c_request_attrs 0 midresponse_session scenario_notif K_NO_WAIT
       \<noteq> Some (- EBUSY, midresponse_session)"
proof -
  have h1: "count (cp_write_params_sem midresponse_session) = 0"
    by (simp add: midresponse_session_eq requested_session_eq)
  have h3: "bt_gatt_ancs_verify_notification_format scenario_notif = 0"
    by (simp add: bt_gatt_ancs_verify_notification_format_def scenario_notif_def
        BT_GATT_ANCS_NB_OF_EVT_ID_def BT_GATT_ANCS_NB_OF_CATEGORY_ID_def)
  have st: "parse_state (parse_info midresponse_session) = ATTR_DATA"
    by (simp add: midresponse_session_eq)
  have r: "bt_gatt_ancs_c_request_attrs 0 midresponse_session scenario_notif K_NO_WAIT =
           Some (- EBUSY, midresponse_session
                   \<lparr>parse_info := (parse_info midresponse_session)\<lparr>parse_state := COMMAND_ID\<rparr>\<rparr>)"
    using h1 h3
    by (simp add: bt_gatt_ancs_c_request_attrs_def bt_gatt_ancs_get_notif_attrs_def
        k_sem_take_def EBUSY_def)
  have ne: "midresponse_session
              \<lparr>parse_info := (parse_info midresponse_session)\<lparr>parse_state := COMMAND_ID\<rparr>\<rparr>
            \<noteq> midresponse_session"
  proof
    assume "midresponse_session
              \<lparr>parse_info := (parse_info midresponse_session)\<lparr>parse_state := COMMAND_ID\<rparr>\<rparr>
            = midresponse_session"
    then have "parse_state (parse_info (midresponse_session
              \<lparr>parse_info := (parse_info midresponse_session)\<lparr>parse_state := COMMAND_ID\<rparr>\<rparr>))
            = parse_state (parse_info midresponse_session)" by simp
    then show False using st by simp
  qed
  show ?thesis using h1 st ne unfolding r by simp
qed


section \<open>The get-notification-attributes request\<close>

lemma cp_put_list_fields:
  "ancs_notif_attr_list (cp_put_list c i vs) = ancs_notif_attr_list c"
  "number_of_requested_attr (cp_put_list c i vs) = number_of_requested_attr c"
  by (induction vs arbitrary: c i) (simp_all add: cp_put_def fault_add_def)

text \<open>The bytes the loop writes for attribute id \<open>a\<close> are those of the layout.\<close>

lemma get_notif_attrs_loop_unfold:
  assumes "a < 8"
  shows "get_notif_attrs_loop c index a =
     (if get (ancs_notif_attr_list c ! a)
      then get_notif_attrs_loop
             ((cp_put_list c index (GetNotifAttrs_attr (ancs_notif_attr_list c) a))
                \<lparr>number_of_requested_attr := number_of_requested_attr c + 1\<rparr>)
             (index + length (GetNotifAttrs_attr (ancs_notif_attr_list c) a)) (a + 1)
      else get_notif_attrs_loop c index (a + 1))"
proof -
  have f: "ancs_notif_attr_list (cp_put c index v) = ancs_notif_attr_list c"
          "number_of_requested_attr (cp_put c index v) = number_of_requested_attr c" for v
    by (simp_all add: cp_put_def fault_add_def)
  show ?thesis
    using assms
    by (subst get_notif_attrs_loop.simps)
       (simp add: Let_def GetNotifAttrs_attr_def f cp_put_list_fields length_sys_put_le16
          BT_GATT_ANCS_NB_OF_NOTIF_ATTR_def BT_GATT_ANCS_NOTIF_ATTR_ID_TITLE_def
          BT_GATT_ANCS_NOTIF_ATTR_ID_SUBTITLE_def BT_GATT_ANCS_NOTIF_ATTR_ID_MESSAGE_def)
qed

lemma get_notif_attrs_loop_eq:
  assumes "a \<le> 8"
      and "length (ancs_notif_attr_list c) = 8"
      and "index + length (concat (map (GetNotifAttrs_attr (ancs_notif_attr_list c)) [a..<8]))
             \<le> length (cp_data c)"
  shows "get_notif_attrs_loop c index a =
     (c\<lparr>cp_data := take index (cp_data c)
                       @ concat (map (GetNotifAttrs_attr (ancs_notif_attr_list c)) [a..<8])
                       @ drop (index + length (concat (map (GetNotifAttrs_attr
                                  (ancs_notif_attr_list c)) [a..<8]))) (cp_data c),
         number_of_requested_attr := number_of_requested_attr c
            + length (filter get (drop a (ancs_notif_attr_list c)))\<rparr>,
      index + length (concat (map (GetNotifAttrs_attr (ancs_notif_attr_list c)) [a..<8])))"
  using assms
proof (induction "8 - a" arbitrary: a c index)
  case 0
  then have a8: "a = 8" by simp
  show ?case
    unfolding a8 using "0.prems"
    by (subst get_notif_attrs_loop.simps) (simp add: BT_GATT_ANCS_NB_OF_NOTIF_ATTR_def)
next
  case (Suc k)
  then have lt: "a < 8" by simp
  define tbl where "tbl = ancs_notif_attr_list c"
  define fa where "fa = GetNotifAttrs_attr tbl a"
  define R where "R = concat (map (GetNotifAttrs_attr tbl) [Suc a..<8])"
  have upt: "[a..<8] = a # [Suc a..<8]" using lt by (simp add: upt_conv_Cons)
  have all: "concat (map (GetNotifAttrs_attr tbl) [a..<8]) = fa @ R"
    by (simp add: upt fa_def R_def)
  have fit: "index + length fa + length R \<le> length (cp_data c)"
    using Suc.prems(3) by (simp add: all tbl_def [symmetric])
  have dr: "drop a tbl = tbl ! a # drop (Suc a) tbl"
    using lt Suc.prems(2) by (simp add: tbl_def Cons_nth_drop_Suc)
  show ?case
  proof (cases "get (tbl ! a)")
    case False
    then have fa0: "fa = []" by (simp add: fa_def GetNotifAttrs_attr_def)
    have "get_notif_attrs_loop c index a = get_notif_attrs_loop c index (a + 1)"
      using False lt by (simp add: get_notif_attrs_loop_unfold tbl_def)
    also have "\<dots> = (c\<lparr>cp_data := take index (cp_data c) @ R @ drop (index + length R) (cp_data c),
         number_of_requested_attr := number_of_requested_attr c
            + length (filter get (drop (a + 1) tbl))\<rparr>, index + length R)"
      using Suc.hyps(1) [of "a + 1" c index] Suc.hyps(2) lt Suc.prems(2) fit
      by (simp add: fa0 R_def tbl_def)
    finally show ?thesis
      using False by (simp add: all tbl_def [symmetric] fa0 dr)
  next
    case True
    define c3 where "c3 = (cp_put_list c index fa)
                \<lparr>number_of_requested_attr := number_of_requested_attr c + 1\<rparr>"
    have c3: "c3 = c\<lparr>cp_data := take index (cp_data c) @ fa @ drop (index + length fa) (cp_data c),
                    number_of_requested_attr := number_of_requested_attr c + 1\<rparr>"
      using fit by (simp add: c3_def cp_put_list_in_range)
    have tbl3: "ancs_notif_attr_list c3 = tbl" by (simp add: c3 tbl_def)
    have "get_notif_attrs_loop c index a = get_notif_attrs_loop c3 (index + length fa) (a + 1)"
      using True lt by (simp add: get_notif_attrs_loop_unfold tbl_def c3_def fa_def)
    also have "\<dots> = (c3\<lparr>cp_data := take (index + length fa) (cp_data c3) @ R
                                 @ drop (index + length fa + length R) (cp_data c3),
         number_of_requested_attr := number_of_requested_attr c3
            + length (filter get (drop (a + 1) tbl))\<rparr>, index + length fa + length R)"
      using Suc.hyps(1) [of "a + 1" c3 "index + length fa"] Suc.hyps(2) lt Suc.prems(2) fit
      by (simp add: tbl3 R_def) (simp add: c3 tbl_def)
    finally show ?thesis
      using True fit by (simp add: all tbl_def [symmetric] dr c3 ac_simps)
  qed
qed


lemma drop_prefix: "length xs = k \<Longrightarrow> drop (k + n) (xs @ ys) = drop n ys"
  by simp

lemma take_prefix: "length xs = k \<Longrightarrow> take k (xs @ ys) = xs"
  by simp

lemma GetNotifAttrs_attr_length: "length (GetNotifAttrs_attr tbl i) \<le> 3"
  by (simp add: GetNotifAttrs_attr_def length_sys_put_le16)

lemma GetNotifAttrs_attrs_length:
  "length (concat (map (GetNotifAttrs_attr tbl) xs)) \<le> 3 * length xs"
proof (induction xs)
  case Nil
  then show ?case by simp
next
  case (Cons x xs)
  then show ?case using GetNotifAttrs_attr_length [of tbl x] by simp
qed

lemma GetNotifAttrs_layout_length:
  "length (GetNotifAttrs_layout uid tbl) \<le> 29"
  using GetNotifAttrs_attrs_length [of tbl "[0..<8]"]
  by (simp add: GetNotifAttrs_layout_def length_sys_put_le32)

text \<open>C7. With the mutex free, a valid notification, and a staging buffer that
  holds the request, the dispatcher hands the GATT layer exactly the layout of
  the specification for every uid: 0x00, the uid as little-endian u32, and for
  each requested attribute id in ascending order the id, followed by the
  registered length as little-endian u16 for Title, Subtitle and Message. The
  parser's expected attribute count becomes the number of requested entries and
  the parse state \<open>COMMAND_ID\<close>.\<close>

theorem request_attrs_encoding:
  assumes "0 < count (cp_write_params_sem c)"
      and "length (ancs_notif_attr_list c) = 8"
      and "length (GetNotifAttrs_layout (n_notif_uid n) (ancs_notif_attr_list c))
             \<le> length (cp_data c)"
      and "bt_gatt_ancs_verify_notification_format n = 0"
  shows "bt_gatt_ancs_c_request_attrs 0 c n timeout =
     Some (0, c\<lparr>cp_write_params_sem := (cp_write_params_sem c)
                     \<lparr>count := count (cp_write_params_sem c) - 1\<rparr>,
                 cp_data := GetNotifAttrs_layout (n_notif_uid n) (ancs_notif_attr_list c)
                   @ drop (length (GetNotifAttrs_layout (n_notif_uid n) (ancs_notif_attr_list c)))
                       (cp_data c),
                 number_of_requested_attr := length (filter get (ancs_notif_attr_list c)),
                 parse_info := (parse_info c)
                   \<lparr>expected_number_of_attrs := length (filter get (ancs_notif_attr_list c)),
                    parse_state := COMMAND_ID\<rparr>,
                 gatt_writes := gatt_writes c @
                   [\<lparr>w_handle = handle_cp c,
                     w_data = GetNotifAttrs_layout (n_notif_uid n) (ancs_notif_attr_list c)\<rparr>]\<rparr>)"
proof -
  define tbl where "tbl = ancs_notif_attr_list c"
  define uid where "uid = n_notif_uid n"
  define A where "A = concat (map (GetNotifAttrs_attr tbl) [0..<8])"
  define c0 where "c0 = c\<lparr>cp_write_params_sem := (cp_write_params_sem c)
                     \<lparr>count := count (cp_write_params_sem c) - 1\<rparr>,
                          number_of_requested_attr := 0\<rparr>"
  define c1 where "c1 = cp_put c0 0 BT_GATT_ANCS_COMMAND_ID_GET_NOTIF_ATTRIBUTES"
  define c2 where "c2 = cp_put_list c1 1 (sys_put_le32 uid)"
  have lay: "GetNotifAttrs_layout uid tbl = 0 # sys_put_le32 uid @ A"
    by (simp add: GetNotifAttrs_layout_def A_def)
  have fit: "5 + length A \<le> length (cp_data c)"
    using assms(3) lay by (simp add: uid_def tbl_def length_sys_put_le32)
  have "0 < length (cp_data c)" using fit by linarith
  then have pos: "0 < length (cp_data c0)" by (simp add: c0_def)
  have c1: "c1 = c0\<lparr>cp_data := 0 # drop 1 (cp_data c)\<rparr>"
    unfolding c1_def
    by (simp add: cp_put_in_range [OF pos] BT_GATT_ANCS_COMMAND_ID_GET_NOTIF_ATTRIBUTES_def)
       (simp add: c0_def)
  have "1 + length (sys_put_le32 uid) \<le> length (cp_data c1)"
    using fit by (simp add: c1 length_sys_put_le32)
  from cp_put_list_in_range [OF this]
  have c2: "c2 = c0\<lparr>cp_data := 0 # sys_put_le32 uid @ drop 5 (cp_data c)\<rparr>"
    unfolding c2_def by (simp add: c1 length_sys_put_le32)
  have tbl2: "ancs_notif_attr_list c2 = tbl" by (simp add: c2 c0_def tbl_def)
  have loop: "get_notif_attrs_loop c2 5 0 =
     (c2\<lparr>cp_data := take 5 (cp_data c2) @ A @ drop (5 + length A) (cp_data c2),
          number_of_requested_attr := number_of_requested_attr c2
            + length (filter get (drop 0 tbl))\<rparr>, 5 + length A)"
    using get_notif_attrs_loop_eq [of 0 c2 5] assms(2) fit
    by (simp add: tbl2 A_def) (simp add: c2 length_sys_put_le32 tbl_def)
  have len16: "(5 + length A) mod 65536 = 5 + length A"
    using GetNotifAttrs_layout_length [of uid tbl]
    by (simp add: lay length_sys_put_le32)
  have sem: "k_sem_take (cp_write_params_sem c) timeout =
     Some (0, (cp_write_params_sem c)\<lparr>count := count (cp_write_params_sem c) - 1\<rparr>)"
    using assms(1) by (simp add: k_sem_take_def)
  have g: "bt_gatt_ancs_get_notif_attrs 0 c uid timeout =
     Some (bt_gatt_ancs_c_cp_write 0
        ((fst (get_notif_attrs_loop c2 5 0))
           \<lparr>parse_info := (parse_info (fst (get_notif_attrs_loop c2 5 0)))
              \<lparr>expected_number_of_attrs :=
                 number_of_requested_attr (fst (get_notif_attrs_loop c2 5 0))\<rparr>\<rparr>)
        (snd (get_notif_attrs_loop c2 5 0)))"
    unfolding bt_gatt_ancs_get_notif_attrs_def sem c2_def c1_def c0_def
    by (simp add: Let_def split_beta)
  have dr: "drop (5 + length A) (0 # sys_put_le32 uid @ drop 5 (cp_data c)) =
            drop (length A + 5) (cp_data c)"
    using drop_prefix [of "0 # sys_put_le32 uid" 5 "length A" "drop 5 (cp_data c)"]
    by (simp add: length_sys_put_le32)
  have tk: "take (5 + length A) (0 # sys_put_le32 uid @ A @ X) = 0 # sys_put_le32 uid @ A" for X
    using take_prefix [of "0 # sys_put_le32 uid @ A" "5 + length A" X]
    by (simp add: length_sys_put_le32)
  show ?thesis
    unfolding bt_gatt_ancs_c_request_attrs_def uid_def [symmetric] tbl_def [symmetric] g loop
    using assms(4) fit dr
    by (simp add: bt_gatt_ancs_c_cp_write_def len16 lay c2 c0_def tk length_sys_put_le32
        tbl_def [symmetric]) (simp add: add.commute)
qed


theorem request_attrs_encoding_witness:
  "0 < count (cp_write_params_sem (scenario_session 18))
   \<and> length (ancs_notif_attr_list (scenario_session 18)) = 8
   \<and> length (GetNotifAttrs_layout (n_notif_uid scenario_notif)
                 (ancs_notif_attr_list (scenario_session 18)))
         \<le> length (cp_data (scenario_session 18))
   \<and> bt_gatt_ancs_verify_notification_format scenario_notif = 0
   \<and> map_option (gatt_writes \<circ> snd)
         (bt_gatt_ancs_c_request_attrs 0 (scenario_session 18) scenario_notif K_NO_WAIT)
       = Some [\<lparr>w_handle = 0,
                 w_data = [0x00, 0x01, 0x02, 0x03, 0x04, 0x00, 0x01, 0x20, 0x00, 0x03, 0x20, 0x00,
                           0x05, 0x06, 0x07]\<rparr>]
   \<and> map_option (expected_number_of_attrs \<circ> parse_info \<circ> snd)
         (bt_gatt_ancs_c_request_attrs 0 (scenario_session 18) scenario_notif K_NO_WAIT)
       = Some 6"
proof -
  have lay: "GetNotifAttrs_layout (n_notif_uid scenario_notif)
                 (ancs_notif_attr_list (scenario_session 18)) =
     [0x00, 0x01, 0x02, 0x03, 0x04, 0x00, 0x01, 0x20, 0x00, 0x03, 0x20, 0x00, 0x05, 0x06, 0x07]"
    by (simp add: GetNotifAttrs_layout_def GetNotifAttrs_attr_def scenario_session_eq
        scenario_notif_def sys_put_le32_def sys_put_le16_def zero_attr_list_entry_def
        upt_conv_Cons)
  have h1: "0 < count (cp_write_params_sem (scenario_session 18))"
    by (simp add: scenario_session_eq)
  have h2: "length (ancs_notif_attr_list (scenario_session 18)) = 8"
    by (simp add: scenario_session_eq)
  have h3: "length (GetNotifAttrs_layout (n_notif_uid scenario_notif)
                 (ancs_notif_attr_list (scenario_session 18)))
         \<le> length (cp_data (scenario_session 18))"
    unfolding lay by (simp add: scenario_session_eq)
  have h4: "bt_gatt_ancs_verify_notification_format scenario_notif = 0"
    by (simp add: bt_gatt_ancs_verify_notification_format_def scenario_notif_def
        BT_GATT_ANCS_NB_OF_EVT_ID_def BT_GATT_ANCS_NB_OF_CATEGORY_ID_def)
  note t = request_attrs_encoding [OF h1 h2 h3 h4, of K_NO_WAIT]
  have a: "map_option (gatt_writes \<circ> snd)
         (bt_gatt_ancs_c_request_attrs 0 (scenario_session 18) scenario_notif K_NO_WAIT)
       = Some [\<lparr>w_handle = 0,
                 w_data = [0x00, 0x01, 0x02, 0x03, 0x04, 0x00, 0x01, 0x20, 0x00, 0x03, 0x20, 0x00,
                           0x05, 0x06, 0x07]\<rparr>]"
    unfolding t lay by (simp add: scenario_session_eq)
  have b: "map_option (expected_number_of_attrs \<circ> parse_info \<circ> snd)
         (bt_gatt_ancs_c_request_attrs 0 (scenario_session 18) scenario_notif K_NO_WAIT)
       = Some 6"
    unfolding t by (simp add: scenario_session_eq zero_attr_list_entry_def)
  from h1 h2 h3 h4 a b show ?thesis by blast
qed


section \<open>Data Source parser: every turn keeps the invariant and advances\<close>

text \<open>The table entry the parser looks at depends on the table pointer and the
  two tables only.\<close>

lemma p_attr_list_at_frame:
  "p_attr_list_at (c\<lparr>evt := e\<rparr>) i = p_attr_list_at c i"
  "p_attr_list_at (c\<lparr>heap := hp\<rparr>) i = p_attr_list_at c i"
  "p_attr_list_at (c\<lparr>handler_calls := hc\<rparr>) i = p_attr_list_at c i"
  "p_attr_list_at (c\<lparr>faults := fs\<rparr>) i = p_attr_list_at c i"
  "p_attr_list p = p_attr_list (parse_info c) \<Longrightarrow>
     p_attr_list_at (c\<lparr>parse_info := p\<rparr>) i = p_attr_list_at c i"
  by (simp_all add: p_attr_list_at_def split: attr_list_ptr.split)

lemmas inv_defs = ds_inv_def tables_ok_def state_ok_def link_ok_def bound_ok_def cur_entry_def
  data_ok_def skip_ok_def

lemma ds_inv_command_id:
  assumes "ds_inv c" and "parse_state (parse_info c) = COMMAND_ID" and "i < length d"
  shows "ds_inv (fst (parse_turn mem d c i)) \<and> snd (parse_turn mem d c i) = i + 1"
  using assms
  by (simp add: parse_turn_def assign_parse_state_def command_id_parse_def Let_def
      ds_inv_def tables_ok_def state_ok_def link_ok_def)

lemma ds_inv_notif_uid:
  assumes "ds_inv c" and "parse_state (parse_info c) = NOTIF_UID" and "i < length d"
  shows "ds_inv (fst (parse_turn mem d c i)) \<and> snd (parse_turn mem d c i) = i + 4"
  using assms
  by (simp add: parse_turn_def assign_parse_state_def notif_uid_parse_def Let_def fault_add_def
      ds_inv_def tables_ok_def state_ok_def link_ok_def attr_fault_def)

lemma ds_inv_app_id:
  assumes "ds_inv c" and "parse_state (parse_info c) = APP_ID" and "i < length d"
  shows "ds_inv (fst (parse_turn mem d c i)) \<and> snd (parse_turn mem d c i) = i + 1"
  using assms
  by (simp add: parse_turn_def assign_parse_state_def app_id_parse_def Let_def fault_add_def
      ds_inv_def tables_ok_def state_ok_def link_ok_def attr_fault_def)

lemma ds_inv_attr_len1:
  assumes "ds_inv c" and "parse_state (parse_info c) = ATTR_LEN1" and "i < length d"
  shows "ds_inv (fst (parse_turn mem d c i)) \<and> snd (parse_turn mem d c i) = i + 1"
  using assms
  by (simp add: parse_turn_def assign_parse_state_def attr_len1_parse_def Let_def
      inv_defs p_attr_list_at_frame)


lemma entry_ok_zero: "entry_ok hp zero_attr_list_entry"
  by (simp add: entry_ok_def zero_attr_list_entry_def)

lemma entry_ok_at: "tables_ok c \<Longrightarrow> entry_ok (heap c) (p_attr_list_at c i)"
  by (auto simp: tables_ok_def p_attr_list_at_def Let_def entry_ok_zero list_all_length
      split: attr_list_ptr.split)

lemma table_at:
  assumes "link_ok c" and "tables_ok c" and "i < nb_of_attr (parse_info c)"
  shows "evt_type (evt c) = BT_GATT_ANCS_C_EVT_NOTIF_ATTRIBUTE
           \<and> i < length (ancs_notif_attr_list c)
           \<and> p_attr_list_at c i = ancs_notif_attr_list c ! i
         \<or> evt_type (evt c) = BT_GATT_ANCS_C_EVT_APP_ATTRIBUTE
           \<and> i < length (ancs_app_attr_list c)
           \<and> p_attr_list_at c i = ancs_app_attr_list c ! i"
  using assms
  by (auto simp: link_ok_def tables_ok_def p_attr_list_at_def Let_def)

text \<open>A call made for the current attribute with the event as it stands.\<close>

lemma new_call_ok:
  assumes "link_ok c" and "tables_ok c" and "bound_ok c" and "get (cur_entry c)"
      and "unat (attr_len (attr (evt c))) \<noteq> 0 \<Longrightarrow>
             nul_at buf (min (unat (attr_len (attr (evt c)))) (unat (l_attr_len (cur_entry c)) - 1))
             \<and> min (unat (attr_len (attr (evt c)))) (unat (l_attr_len (cur_entry c)) - 1)
                 < unat (l_attr_len (cur_entry c))"
  shows "call_ok (ancs_notif_attr_list c) (ancs_app_attr_list c)
           \<lparr>call_evt = evt c, call_attr_data = buf\<rparr>"
proof -
  have b: "attr_id (attr (evt c)) < nb_of_attr (parse_info c)"
    using assms(3) by (simp add: bound_ok_def)
  from table_at [OF assms(1,2) b] show ?thesis
    using assms(4,5) by (auto simp: call_ok_def Let_def cur_entry_def)
qed

lemma ds_inv_attr_id:
  assumes "ds_inv c" and "parse_state (parse_info c) = ATTR_ID" and "i < length d"
  shows "ds_inv (fst (parse_turn mem d c i)) \<and> snd (parse_turn mem d c i) = i + 1"
  using assms
  by (simp add: parse_turn_def assign_parse_state_def attr_id_parse_def Let_def
      all_req_attrs_parsed_def attr_is_requested_def
      inv_defs p_attr_list_at_frame)


lemma ds_inv_attr_len2:
  assumes "ds_inv c" and "parse_state (parse_info c) = ATTR_LEN2" and "i < length d"
  shows "ds_inv (fst (parse_turn mem d c i)) \<and> snd (parse_turn mem d c i) = i + 1"
proof -
  have t: "tables_ok c" and l: "link_ok c" and b: "bound_ok c"
    using assms(1,2) by (simp_all add: ds_inv_def state_ok_def)
  have bb: "attr_id (attr (evt c)) < nb_of_attr (parse_info c)"
    using b by (simp add: bound_ok_def)
  note e = entry_ok_at [OF t, of "attr_id (attr (evt c))"]
  note ta = table_at [OF l t bb]
  show ?thesis
    using assms e ta
    by (auto simp add: parse_turn_def assign_parse_state_def attr_len2_parse_def Let_def
      all_req_attrs_parsed_def attr_is_requested_def evt_handler_def
      inv_defs p_attr_list_at_frame entry_ok_def call_ok_def unat_gt_0
      split: option.splits if_splits)
qed

lemma entry_ok_heap_update: "entry_ok (hp(a := (hp a)[k := v])) = entry_ok hp"
  by (rule ext) (simp add: entry_ok_def split: option.split)

lemma assign_if:
  "assign_parse_state (if b then (s1, c, i) else (s2, c, i))
     = (c\<lparr>parse_info := (parse_info c)\<lparr>parse_state := (if b then s1 else s2)\<rparr>\<rparr>, i)"
  by (simp add: assign_parse_state_def)

text \<open>The end of an attribute: the handler is called when the attribute is
  requested, and the parser goes on to the next attribute id or is done.\<close>

lemma finish_attr:
  assumes t: "tables_ok c" and l: "link_ok c" and b: "bound_ok c"
    and calls: "list_all (call_ok (ancs_notif_attr_list c) (ancs_app_attr_list c)) (handler_calls c)"
    and f: "\<not> list_ex attr_fault (faults c)"
    and n: "get (cur_entry c) \<Longrightarrow> unat (attr_len (attr (evt c))) \<noteq> 0 \<Longrightarrow>
       (case l_p_attr_data (cur_entry c) of None \<Rightarrow> False
        | Some a \<Rightarrow> nul_at (heap c a)
            (min (unat (attr_len (attr (evt c)))) (unat (l_attr_len (cur_entry c)) - 1)))
       \<and> min (unat (attr_len (attr (evt c)))) (unat (l_attr_len (cur_entry c)) - 1)
           < unat (l_attr_len (cur_entry c))"
  shows "ds_inv (fst (assign_parse_state
           (let c2 = (if attr_is_requested c (attr (evt c)) then evt_handler c (evt c) else c)
            in if all_req_attrs_parsed c2 then (DONE, c2, j) else (ATTR_ID, c2, j))))
         \<and> snd (assign_parse_state
           (let c2 = (if attr_is_requested c (attr (evt c)) then evt_handler c (evt c) else c)
            in if all_req_attrs_parsed c2 then (DONE, c2, j) else (ATTR_ID, c2, j))) = j"
proof (cases "get (cur_entry c)")
  case False
  then have r: "\<not> attr_is_requested c (attr (evt c))"
    by (simp add: attr_is_requested_def cur_entry_def)
  show ?thesis
    using t l calls f
    by (simp add: r Let_def assign_if ds_inv_def tables_ok_def state_ok_def link_ok_def)
next
  case True
  then have r: "attr_is_requested c (attr (evt c))"
    by (simp add: attr_is_requested_def cur_entry_def)
  define buf where "buf = (case p_attr_data (attr (evt c)) of None \<Rightarrow> [] | Some a \<Rightarrow> heap c a)"
  have pe: "p_attr_data (attr (evt c)) = l_p_attr_data (cur_entry c)"
    using b by (simp add: bound_ok_def)
  have "unat (attr_len (attr (evt c))) \<noteq> 0 \<Longrightarrow>
             nul_at buf (min (unat (attr_len (attr (evt c)))) (unat (l_attr_len (cur_entry c)) - 1))
             \<and> min (unat (attr_len (attr (evt c)))) (unat (l_attr_len (cur_entry c)) - 1)
                 < unat (l_attr_len (cur_entry c))"
    using n [OF True] by (simp add: buf_def pe split: option.splits)
  from new_call_ok [OF l t b True this]
  have ck: "call_ok (ancs_notif_attr_list c) (ancs_app_attr_list c)
           \<lparr>call_evt = evt c, call_attr_data = buf\<rparr>" .
  show ?thesis
    using t l calls f ck
    by (simp add: r Let_def assign_if evt_handler_def buf_def all_req_attrs_parsed_def
        ds_inv_def tables_ok_def state_ok_def link_ok_def)
qed



lemma set_state_frame:
  "cur_entry (c\<lparr>parse_info := (parse_info c)\<lparr>parse_state := st\<rparr>\<rparr>) = cur_entry c"
  "tables_ok (c\<lparr>parse_info := (parse_info c)\<lparr>parse_state := st\<rparr>\<rparr>) = tables_ok c"
  "link_ok (c\<lparr>parse_info := (parse_info c)\<lparr>parse_state := st\<rparr>\<rparr>) = link_ok c"
  "bound_ok (c\<lparr>parse_info := (parse_info c)\<lparr>parse_state := st\<rparr>\<rparr>) = bound_ok c"
  "data_ok (c\<lparr>parse_info := (parse_info c)\<lparr>parse_state := st\<rparr>\<rparr>) = data_ok c"
  "skip_ok (c\<lparr>parse_info := (parse_info c)\<lparr>parse_state := st\<rparr>\<rparr>) = skip_ok c"
  by (simp_all add: tables_ok_def link_ok_def bound_ok_def data_ok_def skip_ok_def cur_entry_def
      p_attr_list_at_frame split: option.split)

lemma ds_inv_set_state:
  assumes "tables_ok c"
    and "list_all (call_ok (ancs_notif_attr_list c) (ancs_app_attr_list c)) (handler_calls c)"
    and "\<not> list_ex attr_fault (faults c)"
    and "case st of COMMAND_ID \<Rightarrow> True
      | NOTIF_UID \<Rightarrow> link_ok c
      | APP_ID \<Rightarrow> link_ok c
      | ATTR_ID \<Rightarrow> link_ok c
      | ATTR_LEN1 \<Rightarrow> link_ok c \<and> bound_ok c
      | ATTR_LEN2 \<Rightarrow> link_ok c \<and> bound_ok c
      | ATTR_DATA \<Rightarrow> link_ok c \<and> bound_ok c \<and> data_ok c
      | ATTR_SKIP \<Rightarrow> link_ok c \<and> bound_ok c \<and> skip_ok c
      | DONE \<Rightarrow> True"
  shows "ds_inv (c\<lparr>parse_info := (parse_info c)\<lparr>parse_state := st\<rparr>\<rparr>)"
  using assms
  by (cases st) (simp_all add: ds_inv_def state_ok_def set_state_frame)

lemma ds_inv_attr_skip:
  assumes "ds_inv c" and "parse_state (parse_info c) = ATTR_SKIP" and "i < length d"
  shows "ds_inv (fst (parse_turn mem d c i)) \<and> snd (parse_turn mem d c i) = i + 1"
proof -
  have t: "tables_ok c" and l: "link_ok c" and b: "bound_ok c" and s: "skip_ok c"
    and calls: "list_all (call_ok (ancs_notif_attr_list c) (ancs_app_attr_list c)) (handler_calls c)"
    and f: "\<not> list_ex attr_fault (faults c)"
    using assms(1,2) by (simp_all add: ds_inv_def state_ok_def)
  define c1 where "c1 = c\<lparr>parse_info := (parse_info c)
    \<lparr>current_attr_index := current_attr_index (parse_info c) + 1\<rparr>\<rparr>"
  have lt: "current_attr_index (parse_info c) < unat (attr_len (attr (evt c)))"
    using s by (simp add: skip_ok_def)
  have ce: "cur_entry c1 = cur_entry c"
    by (simp add: c1_def cur_entry_def p_attr_list_at_frame)
  have t1: "tables_ok c1" using t by (simp add: c1_def tables_ok_def)
  have l1: "link_ok c1" using l by (simp add: c1_def link_ok_def)
  have b1: "bound_ok c1" using b ce by (simp add: bound_ok_def) (simp add: c1_def)
  note e = entry_ok_at [OF t, of "attr_id (attr (evt c))"]
  have pt: "parse_turn mem d c i = assign_parse_state
     (if current_attr_index (parse_info c1) = unat (attr_len (attr (evt c1)))
         then
           (let c2 = (if attr_is_requested c1 (attr (evt c1)) then evt_handler c1 (evt c1) else c1)
            in if all_req_attrs_parsed c2 then (DONE, c2, i + 1)
               else (ATTR_ID, c2, i + 1))
         else (ATTR_SKIP, c1, i + 1))"
    using assms(2) lt
    by (simp add: parse_turn_def attr_skip_def Let_def c1_def split del: if_split cong: if_cong)
  show ?thesis
  proof (cases "current_attr_index (parse_info c1) = unat (attr_len (attr (evt c1)))")
    case False
    have h: "heap c1 = heap c" "evt c1 = evt c"
      "current_attr_index (parse_info c1) = current_attr_index (parse_info c) + 1"
      by (simp_all add: c1_def)
    have "skip_ok c1"
      using s False unfolding skip_ok_def ce h by (simp split: if_splits)
    have calls1: "list_all (call_ok (ancs_notif_attr_list c1) (ancs_app_attr_list c1)) (handler_calls c1)"
      using calls by (simp add: c1_def)
    have f1: "\<not> list_ex attr_fault (faults c1)" using f by (simp add: c1_def)
    have "ds_inv (c1\<lparr>parse_info := (parse_info c1)\<lparr>parse_state := ATTR_SKIP\<rparr>\<rparr>)"
      using l1 b1 \<open>skip_ok c1\<close> by (intro ds_inv_set_state [OF t1 calls1 f1]) simp
    then show ?thesis
      using False by (simp add: pt assign_parse_state_def)
  next
    case True
    have calls1: "list_all (call_ok (ancs_notif_attr_list c1) (ancs_app_attr_list c1)) (handler_calls c1)"
      using calls by (simp add: c1_def)
    have f1: "\<not> list_ex attr_fault (faults c1)" using f by (simp add: c1_def)
    have n: "get (cur_entry c1) \<Longrightarrow> unat (attr_len (attr (evt c1))) \<noteq> 0 \<Longrightarrow>
       (case l_p_attr_data (cur_entry c1) of None \<Rightarrow> False
        | Some a \<Rightarrow> nul_at (heap c1 a)
            (min (unat (attr_len (attr (evt c1)))) (unat (l_attr_len (cur_entry c1)) - 1)))
       \<and> min (unat (attr_len (attr (evt c1)))) (unat (l_attr_len (cur_entry c1)) - 1)
           < unat (l_attr_len (cur_entry c1))"
    proof -
      assume g: "get (cur_entry c1)"
      have h: "heap c1 = heap c" "evt c1 = evt c" by (simp_all add: c1_def)
      from g have g': "get (cur_entry c)" by (simp add: ce)
      from g' s have 1: "unat (l_attr_len (cur_entry c)) - 1 < unat (attr_len (attr (evt c)))"
        and 2: "(case l_p_attr_data (cur_entry c) of None \<Rightarrow> False
                   | Some a \<Rightarrow> nul_at (heap c a) (unat (l_attr_len (cur_entry c)) - 1))"
        by (simp_all add: skip_ok_def)
      from 1 have m: "min (unat (attr_len (attr (evt c)))) (unat (l_attr_len (cur_entry c)) - 1)
         = unat (l_attr_len (cur_entry c)) - 1" by simp
      from g' e [folded cur_entry_def]
      have 3: "unat (l_attr_len (cur_entry c)) - 1 < unat (l_attr_len (cur_entry c))"
        by (auto simp add: entry_ok_def split: option.splits if_splits)
      show ?thesis
        using 1 2 3 by (auto simp add: ce h min_def split: option.splits)
    qed
    from finish_attr [OF t1 l1 b1 calls1 f1 n, of "i + 1"] show ?thesis
      using True by (simp add: pt)
  qed
qed



lemma ds_inv_attr_data:
  assumes "ds_inv c" and "parse_state (parse_info c) = ATTR_DATA" and "i < length d"
  shows "ds_inv (fst (parse_turn mem d c i)) \<and> snd (parse_turn mem d c i) = i + 1"
proof -
  have t: "tables_ok c" and l: "link_ok c" and b: "bound_ok c" and dk: "data_ok c"
    and calls: "list_all (call_ok (ancs_notif_attr_list c) (ancs_app_attr_list c)) (handler_calls c)"
    and f: "\<not> list_ex attr_fault (faults c)"
    using assms(1,2) by (simp_all add: ds_inv_def state_ok_def)
  define cur where "cur = current_attr_index (parse_info c)"
  define len where "len = unat (attr_len (attr (evt c)))"
  define L where "L = unat (l_attr_len (cur_entry c))"
  obtain a where pa: "l_p_attr_data (cur_entry c) = Some a"
    using dk by (auto simp add: data_ok_def)
  have pe: "p_attr_data (attr (evt c)) = Some a"
    using b pa by (simp add: bound_ok_def)
  have n0: "l_attr_len (cur_entry c) \<noteq> 0" and cl: "cur < len" and cL: "cur + 1 < L"
    using dk by (simp_all add: data_ok_def cur_def len_def L_def)
  note e = entry_ok_at [OF t, of "attr_id (attr (evt c))", folded cur_entry_def]
  have Lh: "L \<le> length (heap c a)"
    using e pa n0 by (simp add: entry_ok_def L_def)
  define c1 where "c1 = c\<lparr>heap := (heap c)(a := (heap c a)[cur := d ! i]),
    parse_info := (parse_info c)\<lparr>current_attr_index := cur + 1\<rparr>\<rparr>"
  have ce: "cur_entry c1 = cur_entry c"
    by (simp add: c1_def cur_entry_def p_attr_list_at_frame)
  have h1: "evt c1 = evt c" "current_attr_index (parse_info c1) = cur + 1"
    "length (heap c1 a) = length (heap c a)"
    "handler_calls c1 = handler_calls c" "faults c1 = faults c"
    "ancs_notif_attr_list c1 = ancs_notif_attr_list c"
    "ancs_app_attr_list c1 = ancs_app_attr_list c"
    by (simp_all add: c1_def)
  have t1: "tables_ok c1" using t by (simp add: c1_def tables_ok_def entry_ok_heap_update)
  have l1: "link_ok c1" using l by (simp add: c1_def link_ok_def)
  have b1: "bound_ok c1" using b unfolding bound_ok_def ce h1 by (simp add: c1_def)
  have calls1: "list_all (call_ok (ancs_notif_attr_list c1) (ancs_app_attr_list c1)) (handler_calls c1)"
    using calls by (simp add: h1)
  have f1: "\<not> list_ex attr_fault (faults c1)" using f by (simp add: h1)
  have put: "attr_data_put c cur (d ! i) = c\<lparr>heap := (heap c)(a := (heap c a)[cur := d ! i])\<rparr>"
    using pe cL Lh by (simp add: attr_data_put_def)
  show ?thesis
  proof (cases "cur + 1 = len \<or> int (cur + 1) = int L - 1")
    case False
    have pt: "parse_turn mem d c i = (c1\<lparr>parse_info := (parse_info c1)\<lparr>parse_state := ATTR_DATA\<rparr>\<rparr>, i + 1)"
      using False cl cL assms(2) put
      by (simp add: parse_turn_def attr_data_parse_def Let_def assign_parse_state_def
          cur_def [symmetric] len_def [symmetric] L_def [symmetric] cur_entry_def [symmetric] c1_def)
    have "data_ok c1"
      using False cl cL n0 pa unfolding data_ok_def ce h1
      by (simp add: cur_def [symmetric] len_def [symmetric] L_def [symmetric]) 
    then have "ds_inv (c1\<lparr>parse_info := (parse_info c1)\<lparr>parse_state := ATTR_DATA\<rparr>\<rparr>)"
      using l1 b1 by (intro ds_inv_set_state [OF t1 calls1 f1]) simp
    then show ?thesis by (simp add: pt)
  next
    case True
    define c2 where "c2 = (if get (cur_entry c)
      then c1\<lparr>heap := (heap c1)(a := (heap c1 a)[cur + 1 := 0])\<rparr> else c1)"
    have ce2: "cur_entry c2 = cur_entry c"
      by (simp add: c2_def c1_def cur_entry_def p_attr_list_at_frame)
    have h2: "evt c2 = evt c" "current_attr_index (parse_info c2) = cur + 1"
      "length (heap c2 a) = length (heap c a)"
      "handler_calls c2 = handler_calls c" "faults c2 = faults c"
      "ancs_notif_attr_list c2 = ancs_notif_attr_list c"
      "ancs_app_attr_list c2 = ancs_app_attr_list c"
      by (simp_all add: c2_def c1_def)
    have t2: "tables_ok c2"
      using t1 by (simp add: c2_def tables_ok_def entry_ok_heap_update)
    have l2: "link_ok c2" using l1 by (simp add: c2_def link_ok_def)
    have b2: "bound_ok c2" using b unfolding bound_ok_def ce2 h2 by (simp add: c2_def c1_def)
    have calls2: "list_all (call_ok (ancs_notif_attr_list c2) (ancs_app_attr_list c2)) (handler_calls c2)"
      using calls by (simp add: h2)
    have f2: "\<not> list_ex attr_fault (faults c2)" using f by (simp add: h2)
    have nul: "get (cur_entry c) \<Longrightarrow> nul_at (heap c2 a) (cur + 1)"
      using cL Lh by (simp add: c2_def c1_def nul_at_def)
    have pt: "parse_turn mem d c i = assign_parse_state
        (if cur + 1 < len then (ATTR_SKIP, c2, i + 1)
         else (let c3 = (if attr_is_requested c2 (attr (evt c2)) then evt_handler c2 (evt c2)
                            else c2)
               in if all_req_attrs_parsed c3 then (DONE, c3, i + 1)
                  else (ATTR_ID, c3, i + 1)))"
      using True cl cL Lh assms(2) pe
      by (simp add: parse_turn_def attr_data_parse_def Let_def attr_data_put_def
          attr_is_requested_def all_req_attrs_parsed_def evt_handler_def p_attr_list_at_frame
          cur_def [symmetric] len_def [symmetric] cur_entry_def [symmetric] L_def [symmetric]
          c2_def c1_def)
    show ?thesis
    proof (cases "cur + 1 < len")
      case True
      with \<open>cur + 1 = len \<or> int (cur + 1) = int L - 1\<close> have eq: "L - Suc 0 = Suc cur" by auto
      have "skip_ok c2"
        using True nul pa unfolding skip_ok_def ce2 h2
        by (simp add: len_def [symmetric] L_def [symmetric] eq)
      then have "ds_inv (c2\<lparr>parse_info := (parse_info c2)\<lparr>parse_state := ATTR_SKIP\<rparr>\<rparr>)"
        using l2 b2 by (intro ds_inv_set_state [OF t2 calls2 f2]) simp
      then show ?thesis using True by (simp add: pt assign_parse_state_def)
    next
      case False
      with cl have eq: "len = cur + 1" by simp
      have n: "get (cur_entry c2) \<Longrightarrow> unat (attr_len (attr (evt c2))) \<noteq> 0 \<Longrightarrow>
       (case l_p_attr_data (cur_entry c2) of None \<Rightarrow> False
        | Some a \<Rightarrow> nul_at (heap c2 a)
            (min (unat (attr_len (attr (evt c2)))) (unat (l_attr_len (cur_entry c2)) - 1)))
       \<and> min (unat (attr_len (attr (evt c2)))) (unat (l_attr_len (cur_entry c2)) - 1)
           < unat (l_attr_len (cur_entry c2))"
      proof -
        assume g: "get (cur_entry c2)"
        then have g': "get (cur_entry c)" by (simp add: ce2)
        have m: "min len (L - 1) = cur + 1" using eq cL by simp
        show ?thesis
          unfolding ce2 h2 pa len_def [symmetric] L_def [symmetric] m
          using nul [OF g'] cL by simp
      qed
      from finish_attr [OF t2 l2 b2 calls2 f2 n, of "i + 1"] show ?thesis
        using False by (simp add: pt)
    qed
  qed
qed



lemma turn_inv:
  assumes "ds_inv c" and "i < length d"
  shows "ds_inv (fst (parse_turn mem d c i)) \<and> i < snd (parse_turn mem d c i)"
proof (cases "parse_state (parse_info c)")
  case COMMAND_ID
  from ds_inv_command_id [OF assms(1) this assms(2), of mem] show ?thesis by simp
next
  case NOTIF_UID
  from ds_inv_notif_uid [OF assms(1) this assms(2), of mem] show ?thesis by simp
next
  case APP_ID
  from ds_inv_app_id [OF assms(1) this assms(2), of mem] show ?thesis by simp
next
  case ATTR_ID
  from ds_inv_attr_id [OF assms(1) this assms(2), of mem] show ?thesis by simp
next
  case ATTR_LEN1
  from ds_inv_attr_len1 [OF assms(1) this assms(2), of mem] show ?thesis by simp
next
  case ATTR_LEN2
  from ds_inv_attr_len2 [OF assms(1) this assms(2), of mem] show ?thesis by simp
next
  case ATTR_DATA
  from ds_inv_attr_data [OF assms(1) this assms(2), of mem] show ?thesis by simp
next
  case ATTR_SKIP
  from ds_inv_attr_skip [OF assms(1) this assms(2), of mem] show ?thesis by simp
next
  case DONE
  then show ?thesis using assms by (simp add: parse_turn_def)
qed

lemma parse_turn_tables:
  "ancs_notif_attr_list (fst (parse_turn mem d c i)) = ancs_notif_attr_list c
   \<and> ancs_app_attr_list (fst (parse_turn mem d c i)) = ancs_app_attr_list c"
  by (cases "parse_state (parse_info c)")
     (simp_all add: parse_turn_def assign_parse_state_def command_id_parse_def notif_uid_parse_def
       app_id_parse_def attr_id_parse_def attr_len1_parse_def attr_len2_parse_def
       attr_data_parse_def attr_skip_def attr_data_put_def evt_handler_def fault_add_def Let_def
       split: option.split)

text \<open>From a state of the invariant the loop returns for every record, in a
  state of the invariant, with the two tables as they were.\<close>

lemma parse_loop_inv:
  "ds_inv c \<Longrightarrow>
     \<exists>c'. parse_loop mem d c i = Some c' \<and> ds_inv c'
       \<and> ancs_notif_attr_list c' = ancs_notif_attr_list c
       \<and> ancs_app_attr_list c' = ancs_app_attr_list c"
proof (induction "length d - i" arbitrary: c i rule: less_induct)
  case less
  show ?case
  proof (cases "i < length d")
    case True
    from turn_inv [OF less.prems True, of mem]
    have inv: "ds_inv (fst (parse_turn mem d c i))" and adv: "i < snd (parse_turn mem d c i)"
      by simp_all
    have "length d - snd (parse_turn mem d c i) < length d - i"
      using adv True by arith
    from less.hyps [OF this inv] parse_turn_tables [of mem d c i]
    show ?thesis
      by (subst parse_loop.simps) (simp add: True)
  next
    case False
    then show ?thesis
      using less.prems by (subst parse_loop.simps) simp
  qed
qed

lemma on_received_ds_all_inv:
  "ds_inv c \<Longrightarrow>
     \<exists>c'. on_received_ds_all mem c records = Some c' \<and> ds_inv c'
       \<and> ancs_notif_attr_list c' = ancs_notif_attr_list c
       \<and> ancs_app_attr_list c' = ancs_app_attr_list c"
proof (induction records arbitrary: c)
  case Nil
  then show ?case by simp
next
  case (Cons r rs)
  from parse_loop_inv [OF Cons.prems, of mem r 0]
  obtain c1 where 1: "ancs_parse_get_attrs_response mem c r = Some c1" and 2: "ds_inv c1"
    and 3: "ancs_notif_attr_list c1 = ancs_notif_attr_list c"
           "ancs_app_attr_list c1 = ancs_app_attr_list c"
    by (auto simp add: ancs_parse_get_attrs_response_def)
  from Cons.IH [OF 2] show ?case by (simp add: 1 3)
qed

lemma ds_inv_requested_session: "ds_inv requested_session"
  by (simp add: requested_session_eq scenario_session_eq ds_inv_def tables_ok_def state_ok_def
      entry_ok_def const_defs sample_heap_def zero_attr_list_entry_def)

lemmas response_eval =
  requested_session_eq ancs_parse_get_attrs_response_def scenario_session_eq
  parse_loop_step parse_loop_end parser_defs const_defs zero_attr_list_entry_def sample_heap_def
  replicate_numeral_Cons zero_evt_def call_view_def zero_mem_def

text \<open>Registered lengths of at least 2. Let every registered entry have a
  length of at least 2 that its buffer can hold, and let the parser be in a
  state of its invariant (\<open>ds_inv\<close>). Then the parser returns for every
  sequence of records, the tables are unchanged, no store through an attribute
  pointer has gone outside its buffer (stores into \<open>evt.app_id\<close> are not
  covered), and every attribute event the handler has received names a
  requested entry and, when the received length is not zero, shows a buffer
  that holds NUL at the index \<open>min (received length) (max_len - 1)\<close>, below
  \<open>max_len\<close> (\<open>call_ok\<close>).\<close>

lemma long_entries_events_terminated:
  assumes "ds_inv c"
  shows "\<exists>c'. on_received_ds_all mem c records = Some c'
           \<and> ancs_notif_attr_list c' = ancs_notif_attr_list c
           \<and> ancs_app_attr_list c' = ancs_app_attr_list c
           \<and> list_all (call_ok (ancs_notif_attr_list c) (ancs_app_attr_list c)) (handler_calls c')
           \<and> \<not> list_ex attr_fault (faults c')"
proof -
  from on_received_ds_all_inv [OF assms, of mem records]
  obtain c' where 1: "on_received_ds_all mem c records = Some c'" and 2: "ds_inv c'"
    and 3: "ancs_notif_attr_list c' = ancs_notif_attr_list c"
           "ancs_app_attr_list c' = ancs_app_attr_list c"
    by blast
  from 2 have "list_all (call_ok (ancs_notif_attr_list c) (ancs_app_attr_list c)) (handler_calls c')"
    and "\<not> list_ex attr_fault (faults c')"
    by (simp_all add: ds_inv_def 3)
  with 1 3 show ?thesis by blast
qed

text \<open>The requested scenario session satisfies the invariant; the response
  with the Title "nRF" gives one event, whose buffer holds the three bytes and
  NUL at index 3.\<close>

lemma long_entries_events_terminated_example:
  "ds_inv requested_session
   \<and> map_option (map call_view \<circ> handler_calls)
        (on_received_ds_all zero_mem requested_session [title_response])
       = Some [(1, 3, [0x6E, 0x52, 0x46] @ replicate 29 0)]
   \<and> (\<exists>c'. on_received_ds_all zero_mem requested_session [title_response] = Some c'
           \<and> ancs_notif_attr_list c' = ancs_notif_attr_list requested_session
           \<and> ancs_app_attr_list c' = ancs_app_attr_list requested_session
           \<and> list_all (call_ok (ancs_notif_attr_list requested_session)
                          (ancs_app_attr_list requested_session)) (handler_calls c')
           \<and> \<not> list_ex attr_fault (faults c'))"
proof -
  have h: "ds_inv requested_session"
    by (rule ds_inv_requested_session)
  have e: "map_option (map call_view \<circ> handler_calls)
        (on_received_ds_all zero_mem requested_session [title_response])
       = Some [(1, 3, [0x6E, 0x52, 0x46] @ replicate 29 0)]"
    by (simp add: title_response_def response_eval)
  note t = long_entries_events_terminated [OF h, of zero_mem "[title_response]"]
  from h e t show ?thesis by blast
qed

text \<open>A zero-length attribute: \<open>attr_len2_parse\<close> calls the handler without a
  store, so the event for an empty Title shows the buffer as the caller left
  it, here 32 bytes 0x41 with no NUL among them.\<close>

lemma zero_length_event_buffer_untouched:
  "l_attr_len (ancs_notif_attr_list uncleared_session ! 1) = 32
   \<and> map_option (map call_view \<circ> handler_calls)
        (on_received_ds_all zero_mem uncleared_session [empty_title_response])
       = Some [(1, 0, replicate 32 0x41)]
   \<and> \<not> nul_within (replicate 32 0x41) 32"
proof -
  have a: "l_attr_len (ancs_notif_attr_list uncleared_session ! 1) = 32"
    by (simp add: uncleared_session_def requested_session_eq scenario_session_eq)
  have b: "map_option (map call_view \<circ> handler_calls)
        (on_received_ds_all zero_mem uncleared_session [empty_title_response])
       = Some [(1, 0, replicate 32 0x41)]"
    by (simp add: empty_title_response_def uncleared_session_def uncleared_heap_def
        response_eval)
  have c: "\<not> nul_within (replicate 32 0x41) 32"
    by (simp add: nul_within_def)
  from a b c show ?thesis by blast
qed

section \<open>Data Source parser: a registered length of 1\<close>

lemma one_byte_title_session_eq:
  "one_byte_title_session =
     (bt_gatt_ancs_c_init 18 (sample_heap(1 := [0])))
     \<lparr>ancs_notif_attr_list :=
        [zero_attr_list_entry,
         \<lparr>get = True, l_attr_id = 0, l_attr_len = 1, l_p_attr_data = Some 1\<rparr>,
         zero_attr_list_entry, zero_attr_list_entry, zero_attr_list_entry, zero_attr_list_entry,
         zero_attr_list_entry, zero_attr_list_entry],
      cp_write_params_sem := \<lparr>count = 0, limit = 1\<rparr>,
      cp_data := [0, 1, 2, 3, 4, 1, 1, 0, 0, 0, 0, 0, 0, 0, 0, 0, 0, 0],
      number_of_requested_attr := 1,
      parse_info := (parse_info (bt_gatt_ancs_c_init 18 (sample_heap(1 := [0]))))
         \<lparr>expected_number_of_attrs := 1\<rparr>,
      gatt_writes := [\<lparr>w_handle = 0, w_data = [0, 1, 2, 3, 4, 1, 1, 0]\<rparr>]\<rparr>"
  by (simp add: one_byte_title_session_def bt_gatt_ancs_c_init_def bt_gatt_ancs_c_attr_add_def
      bt_gatt_ancs_c_request_attrs_def bt_gatt_ancs_get_notif_attrs_def
      bt_gatt_ancs_verify_notification_format_def scenario_notif_def k_sem_take_def Let_def
      k_sem_init_def
      cp_put_def sys_put_le32_def sys_put_le16_def bt_gatt_ancs_c_cp_write_def
      get_notif_attrs_loop.simps
      const_defs zero_attr_list_entry_def replicate_numeral_Cons)

lemmas one_byte_eval =
  one_byte_title_session_eq bt_gatt_ancs_c_init_def k_sem_init_def
  ancs_parse_get_attrs_response_def parse_loop_step parse_loop_end parser_defs const_defs
  zero_attr_list_entry_def sample_heap_def replicate_numeral_Cons zero_evt_def zero_mem_def
  call_view_def

text \<open>A turn that leaves the session and the index as they are repeats for
  ever.\<close>

lemma parse_loop_stuck:
  assumes "i < length d" and "parse_turn mem d c i = (c, i)"
  shows "parse_loop mem d c i = None"
proof (cases "parse_loop mem d c i")
  case None
  then show ?thesis .
next
  case (Some y)
  have "\<not> (mem = mem \<and> d = d \<and> c = c \<and> i = i)"
  proof (rule parse_loop.raw_induct
      [where P = "\<lambda>m' d' c' i' y'. \<not> (m' = mem \<and> d' = d \<and> c' = c \<and> i' = i)", OF _ Some])
    fix f m' d' c' i' y'
    assume ih: "\<And>m d1 c1 i1 y1. f m d1 c1 i1 = Some y1 \<Longrightarrow>
                  \<not> (m = mem \<and> d1 = d \<and> c1 = c \<and> i1 = i)"
      and st: "(if i' < length d'
                then f m' d' (fst (parse_turn m' d' c' i')) (snd (parse_turn m' d' c' i'))
                else Some c') = Some y'"
    show "\<not> (m' = mem \<and> d' = d \<and> c' = c \<and> i' = i)"
    proof
      assume e: "m' = mem \<and> d' = d \<and> c' = c \<and> i' = i"
      with st assms have "f mem d c i = Some y'" by simp
      from ih [OF this] show False by simp
    qed
  qed
  then show ?thesis by simp
qed

lemma one_byte_title_midresponse_eq:
  "one_byte_title_midresponse = one_byte_title_session
     \<lparr>parse_info := \<lparr>p_attr_list = LIST_NOTIF, nb_of_attr = 8,
             expected_number_of_attrs = 0, parse_state = ATTR_DATA,
             command_id = 0, current_attr_index = 1, current_app_id_index = 0\<rparr>,
      evt := zero_evt\<lparr>evt_type := BT_GATT_ANCS_C_EVT_NOTIF_ATTRIBUTE,
             notif_uid := 0x04030201,
             attr := \<lparr>attr_len = 2, attr_id = 1, p_attr_data = Some 1\<rparr>\<rparr>,
      heap := sample_heap(1 := [0x6E])\<rparr>"
  by (simp add: one_byte_title_midresponse_def one_byte_eval)

lemma one_byte_title_first_record:
  "ancs_parse_get_attrs_response zero_mem one_byte_title_session [0, 1, 2, 3, 4, 1, 2, 0, 0x6E]
     = Some one_byte_title_midresponse"
  by (simp add: one_byte_title_midresponse_eq one_byte_eval)

lemma one_byte_title_stuck_turn:
  "parse_turn zero_mem [0x52] one_byte_title_midresponse 0 = (one_byte_title_midresponse, 0)"
  by (simp add: one_byte_title_midresponse_eq one_byte_eval)

text \<open>C6. \<open>bt_gatt_ancs_c_attr_add\<close> accepts a buffer of length 1.
  \<open>attr_data_parse\<close> copies a byte while the write index is below the
  registered length and only afterwards compares the index with the
  registered length minus 1. With the Title registered with a 1-byte buffer,
  the byte of a one-byte Title is stored at index 0 and the terminator at
  index 1, which is offset \<open>max_len\<close> and outside the buffer: one byte of
  on-wire data is stored, not \<open>max_len - 1 = 0\<close>, and the event shows a
  buffer with no NUL in it. With a Title of two bytes the index passes
  \<open>max_len - 1\<close> without the test seeing it: the turn for the second byte
  neither copies nor ends the attribute nor advances, and the parser does not
  return.\<close>

theorem one_byte_buffer_terminator_past_end:
  "fst (bt_gatt_ancs_c_attr_add (bt_gatt_ancs_c_init 18 (sample_heap(1 := [0]))) 1 (Some 1) 1) = 0
   \<and> l_attr_len (ancs_notif_attr_list one_byte_title_session ! 1) = 1
   \<and> l_p_attr_data (ancs_notif_attr_list one_byte_title_session ! 1) = Some 1
   \<and> heap one_byte_title_session 1 = [0]
   \<and> map_option faults
        (ancs_parse_get_attrs_response zero_mem one_byte_title_session one_byte_title_response)
       = Some [WRITE_PAST_ATTR_DATA 1]
   \<and> map_option (map call_view \<circ> handler_calls)
        (ancs_parse_get_attrs_response zero_mem one_byte_title_session one_byte_title_response)
       = Some [(1, 1, [0x6E])]
   \<and> \<not> nul_within [0x6E] 1
   \<and> concat two_byte_title_records = [0, 1, 2, 3, 4, 1, 2, 0, 0x6E, 0x52]
   \<and> on_received_ds_all zero_mem one_byte_title_session two_byte_title_records = None"
proof -
  have a: "fst (bt_gatt_ancs_c_attr_add (bt_gatt_ancs_c_init 18 (sample_heap(1 := [0])))
                  1 (Some 1) 1) = 0"
    by (simp add: bt_gatt_ancs_c_attr_add_def const_defs)
  have b: "l_attr_len (ancs_notif_attr_list one_byte_title_session ! 1) = 1"
    and c: "l_p_attr_data (ancs_notif_attr_list one_byte_title_session ! 1) = Some 1"
    and d: "heap one_byte_title_session 1 = [0]"
    by (simp_all add: one_byte_title_session_eq bt_gatt_ancs_c_init_def)
  have e: "map_option faults
        (ancs_parse_get_attrs_response zero_mem one_byte_title_session one_byte_title_response)
       = Some [WRITE_PAST_ATTR_DATA 1]"
    by (simp add: one_byte_title_response_def one_byte_eval)
  have f: "map_option (map call_view \<circ> handler_calls)
        (ancs_parse_get_attrs_response zero_mem one_byte_title_session one_byte_title_response)
       = Some [(1, 1, [0x6E])]"
    by (simp add: one_byte_title_response_def one_byte_eval)
  have g: "\<not> nul_within [0x6E] 1"
    by (simp add: nul_within_def)
  have h: "concat two_byte_title_records = [0, 1, 2, 3, 4, 1, 2, 0, 0x6E, 0x52]"
    by (simp add: two_byte_title_records_def)
  have "parse_loop zero_mem [0x52] one_byte_title_midresponse 0 = None"
    by (rule parse_loop_stuck [OF _ one_byte_title_stuck_turn]) simp
  then have "ancs_parse_get_attrs_response zero_mem one_byte_title_midresponse [0x52] = None"
    by (simp add: ancs_parse_get_attrs_response_def)
  then have i: "on_received_ds_all zero_mem one_byte_title_session two_byte_title_records = None"
    by (simp add: two_byte_title_records_def one_byte_title_first_record)
  from a b c d e f g h i show ?thesis by blast
qed

text \<open>C1. \<open>notif_uid_parse\<close> reads the four bytes of the notification UID
  from the record at hand and advances the index by four, whatever the
  record holds. The response with the Title "nRF" in one record gives the
  Title event. Cut after the second byte of the UID, the first record is read
  two bytes past its end, the last two bytes of the UID in the second record
  are taken as an attribute id and the first byte of a length, and no event is
  emitted: the parser is left in the data of a Message of 260 bytes.\<close>

theorem uid_split_loses_events:
  "concat title_response_cut = title_response
   \<and> map_option (map call_view \<circ> handler_calls)
        (on_received_ds_all zero_mem requested_session [title_response])
       = Some [(1, 3, [0x6E, 0x52, 0x46] @ replicate 29 0)]
   \<and> map_option (map call_view \<circ> handler_calls)
        (on_received_ds_all zero_mem requested_session title_response_cut)
       = Some []
   \<and> map_option faults (on_received_ds_all zero_mem requested_session title_response_cut)
       = Some [READ_PAST_RECORD]
   \<and> map_option (parse_state \<circ> parse_info)
        (on_received_ds_all zero_mem requested_session title_response_cut)
       = Some ATTR_DATA
   \<and> map_option (attr \<circ> evt)
        (on_received_ds_all zero_mem requested_session title_response_cut)
       = Some \<lparr>attr_len = 260, attr_id = 3, p_attr_data = Some 3\<rparr>"
proof -
  have a: "concat title_response_cut = title_response"
    by (simp add: title_response_cut_def title_response_def)
  have b: "map_option (map call_view \<circ> handler_calls)
        (on_received_ds_all zero_mem requested_session [title_response])
       = Some [(1, 3, [0x6E, 0x52, 0x46] @ replicate 29 0)]"
    by (simp add: title_response_def response_eval)
  have c: "map_option (map call_view \<circ> handler_calls)
        (on_received_ds_all zero_mem requested_session title_response_cut)
       = Some []"
    by (simp add: title_response_cut_def response_eval)
  have d: "map_option faults (on_received_ds_all zero_mem requested_session title_response_cut)
       = Some [READ_PAST_RECORD]"
    by (simp add: title_response_cut_def response_eval)
  have e: "map_option (parse_state \<circ> parse_info)
        (on_received_ds_all zero_mem requested_session title_response_cut)
       = Some ATTR_DATA"
    by (simp add: title_response_cut_def response_eval)
  have f: "map_option (attr \<circ> evt)
        (on_received_ds_all zero_mem requested_session title_response_cut)
       = Some \<lparr>attr_len = 260, attr_id = 3, p_attr_data = Some 3\<rparr>"
    by (simp add: title_response_cut_def response_eval)
  from a b c d e f show ?thesis by blast
qed


section \<open>Get-app-attributes encoder\<close>

lemmas app_request_defs =
  ancs_c_app_attr_request_def app_attr_get_def k_sem_take_def bt_gatt_ancs_c_cp_write_def
  app_attr_get_loop_step app_attr_get_loop_end encoder_defs fault_add_def rd_def

text \<open>C4. With an 18-byte staging buffer the request for the 19-byte app
  identifier "com.apple.mobilecal" does not fit. The encoder ends in
  \<open>APP_ATTR_ABORT\<close> and the call returns \<open>-ENOMEM\<close>, but the semaphore that was
  taken (count 1 before) is still taken when the call returns (count 0), so the
  next dispatch finds the mutex held.\<close>

theorem app_attr_request_overflow_keeps_mutex:
  "map_option fst
     (app_attr_get_loop zero_mem calendar_app_id 19
        (APP_ATTR_COMMAND_ID,
         (scenario_session 18)\<lparr>cp_write_params_sem := \<lparr>count = 0, limit = 1\<rparr>,
                                 number_of_requested_attr := 0\<rparr>, 0, 0, 0))
     = Some APP_ATTR_ABORT
   \<and> map_option fst
        (ancs_c_app_attr_request zero_mem 0 (scenario_session 18) calendar_app_id 19 K_NO_WAIT)
     = Some (- ENOMEM)
   \<and> count (cp_write_params_sem (scenario_session 18)) = 1
   \<and> map_option (count \<circ> cp_write_params_sem \<circ> snd)
        (ancs_c_app_attr_request zero_mem 0 (scenario_session 18) calendar_app_id 19 K_NO_WAIT)
     = Some 0
   \<and> map_option fst
        (bt_gatt_ancs_perform_notif_action 0
           (snd (the (ancs_c_app_attr_request zero_mem 0 (scenario_session 18)
                        calendar_app_id 19 K_NO_WAIT)))
           0x04030201 ACTION_ID_POSITIVE K_NO_WAIT)
     = Some (- EBUSY)"
  by (simp add: app_request_defs scenario_session_eq const_defs calendar_app_id_def
      bt_gatt_ancs_perform_notif_action_def)

section \<open>Data Source parser: the app identifier\<close>

lemma app_requested_session_eq:
  "app_requested_session = (scenario_session 18)
     \<lparr>cp_write_params_sem := \<lparr>count = 0, limit = 1\<rparr>,
      cp_data := [1, 0x63, 0x6F, 0x6D, 0, 0, 0, 0, 0, 0, 0, 0, 0, 0, 0, 0, 0, 0],
      number_of_requested_attr := 1,
      parse_info := (parse_info (scenario_session 18))\<lparr>expected_number_of_attrs := 1\<rparr>,
      gatt_writes := [\<lparr>w_handle = 0, w_data = [1, 0x63, 0x6F, 0x6D, 0, 0]\<rparr>]\<rparr>"
  by (simp add: app_requested_session_def app_request_defs scenario_session_eq const_defs
      replicate_numeral_Cons)

lemmas parse_eval =
  ancs_parse_get_attrs_response_def parse_loop_step parse_loop_end parser_defs const_defs
  zero_attr_list_entry_def sample_heap_def replicate_numeral_Cons zero_evt_def

text \<open>C10. \<open>app_id_parse\<close> stores at \<open>current_app_id_index\<close> without comparing
  it with the 32 bytes of \<open>evt.app_id\<close>, and no dispatcher resets the index. An
  app identifier of 32 bytes puts its terminator at index 32, past the array;
  and after one answered request for a 19-byte identifier the index stays 19,
  so the same answer to a second request stores at the indices 19..38.\<close>

theorem app_id_parse_writes_past_app_id:
  "length (app_id (evt app_requested_session)) = 32
   \<and> map_option faults
        (ancs_parse_get_attrs_response zero_mem app_requested_session long_app_id_response)
     = Some [WRITE_PAST_APP_ID 32]
   \<and> faults calendar_answered_session = []
   \<and> current_app_id_index (parse_info calendar_answered_session) = 19
   \<and> current_app_id_index (parse_info calendar_rerequested_session) = 19
   \<and> parse_state (parse_info calendar_rerequested_session) = COMMAND_ID
   \<and> map_option faults
        (ancs_parse_get_attrs_response zero_mem calendar_rerequested_session calendar_response)
     = Some [WRITE_PAST_APP_ID 32, WRITE_PAST_APP_ID 33, WRITE_PAST_APP_ID 34,
             WRITE_PAST_APP_ID 35, WRITE_PAST_APP_ID 36, WRITE_PAST_APP_ID 37,
             WRITE_PAST_APP_ID 38]"
proof -
  have a: "length (app_id (evt app_requested_session)) = 32"
    by (simp add: app_requested_session_eq scenario_session_eq zero_evt_def const_defs)
  have b: "map_option faults
        (ancs_parse_get_attrs_response zero_mem app_requested_session long_app_id_response)
     = Some [WRITE_PAST_APP_ID 32]"
    by (simp add: app_requested_session_eq scenario_session_eq long_app_id_response_def
        parse_eval)
  have c: "faults calendar_answered_session = []
      \<and> current_app_id_index (parse_info calendar_answered_session) = 19"
    by (simp add: calendar_answered_session_def app_request_defs scenario_session_eq
        calendar_app_id_def calendar_response_def bt_gatt_ancs_c_cp_write_callback_def
        k_sem_give_def parse_eval)
  have d: "current_app_id_index (parse_info calendar_rerequested_session) = 19
      \<and> parse_state (parse_info calendar_rerequested_session) = COMMAND_ID"
    by (simp add: calendar_rerequested_session_def calendar_answered_session_def
        app_request_defs scenario_session_eq
        calendar_app_id_def calendar_response_def bt_gatt_ancs_c_cp_write_callback_def
        k_sem_give_def parse_eval)
  have e: "map_option faults
        (ancs_parse_get_attrs_response zero_mem calendar_rerequested_session calendar_response)
     = Some [WRITE_PAST_APP_ID 32, WRITE_PAST_APP_ID 33, WRITE_PAST_APP_ID 34,
             WRITE_PAST_APP_ID 35, WRITE_PAST_APP_ID 36, WRITE_PAST_APP_ID 37,
             WRITE_PAST_APP_ID 38]"
    by (simp add: calendar_rerequested_session_def calendar_answered_session_def
        app_request_defs scenario_session_eq
        calendar_app_id_def calendar_response_def bt_gatt_ancs_c_cp_write_callback_def
        k_sem_give_def parse_eval)
  from a b c d e show ?thesis by blast
qed

end
